theory Spec2Isabelle
  imports Main
begin

section \<open>AIgram backend: data model\<close>

text \<open>
  The backend (\<^verbatim>\<open>main.py\<close>, \<^verbatim>\<open>schemas.py\<close>) keeps schema-validated records in a document
  store, one collection per entity. The handlers are modelled as state transformers over
  a record \<open>sys\<close> that holds everything they read or change: the global database handle
  \<open>db\<close> (\<open>None\<close> when unset), and the three sources of non-determinism of the code, each
  a sequence of future readings: the random number generator, the clock behind
  \<^verbatim>\<open>_now()\<close>, and the identifiers the driver generates for inserted documents.
  An exception is a value of type \<open>exn\<close>; a handler returns \<open>Inl\<close> of the exception it
  raised or \<open>Inr\<close> of its result, together with the state it leaves behind.
  Integers are Python's: unbounded.
\<close>

subsection \<open>Exceptions\<close>

datatype exn =
    HTTPException nat string
  | TypeError string
  | IndexError string
  | ValueError string
  | InvalidId string
  | PyMongoError string
  | ValidationError "string list"

subsection \<open>Strings\<close>

definition digits :: string where
  "digits = ''0123456789''"

fun str_nat :: "nat \<Rightarrow> string" where
  "str_nat n = (if n < 10 then [digits ! n] else str_nat (n div 10) @ [digits ! (n mod 10)])"

declare str_nat.simps [simp del]

text \<open>Python's \<^verbatim>\<open>str\<close> of an integer.\<close>

definition str_int :: "int \<Rightarrow> string" where
  "str_int i = (if i < 0 then CHR ''-'' # str_nat (nat (- i)) else str_nat (nat i))"

text \<open>\<^verbatim>\<open>str.lower\<close> on the ASCII letters (the name pools are ASCII).\<close>

definition lower_char :: "char \<Rightarrow> char" where
  "lower_char c =
     (case map_of (zip ''ABCDEFGHIJKLMNOPQRSTUVWXYZ'' ''abcdefghijklmnopqrstuvwxyz'') c of
        Some l \<Rightarrow> l
      | None \<Rightarrow> c)"

definition lower :: "string \<Rightarrow> string" where
  "lower s = map lower_char s"

text \<open>
  The whitespace of \<^verbatim>\<open>str.split()\<close> in the ASCII range (the strings that are split here
  are ASCII), and the whitespace that \<^verbatim>\<open>bytes.fromhex\<close> skips.
\<close>

definition is_space :: "char \<Rightarrow> bool" where
  "is_space c =
     (c \<in> set [CHR '' '', CHR 0x09, CHR 0x0A, CHR 0x0B, CHR 0x0C, CHR 0x0D,
               CHR 0x1C, CHR 0x1D, CHR 0x1E, CHR 0x1F])"

definition is_ascii_space :: "char \<Rightarrow> bool" where
  "is_ascii_space c = (c \<in> set [CHR '' '', CHR 0x09, CHR 0x0A, CHR 0x0B, CHR 0x0C, CHR 0x0D])"

text \<open>
  \<^verbatim>\<open>s.split()[0]\<close>: the first whitespace-separated word of \<open>s\<close>; an \<^verbatim>\<open>IndexError\<close>
  when \<open>s\<close> has no word.
\<close>

definition split_first :: "string \<Rightarrow> exn + string" where
  "split_first s =
     (let s' = dropWhile is_space s in
      if s' = [] then Inl (IndexError ''list index out of range'')
      else Inr (takeWhile (\<lambda>c. \<not> is_space c) s'))"

text \<open>\<^verbatim>\<open>" ".join(ws)\<close>\<close>

fun join_space :: "string list \<Rightarrow> string" where
  "join_space [] = []"
| "join_space [w] = w"
| "join_space (w # ws) = w @ '' '' @ join_space ws"

subsection \<open>Schemas (\<^verbatim>\<open>schemas.py\<close>)\<close>

text \<open>
  Each pydantic model is a record. Its constructor takes one argument per field, in the
  order of the declaration: \<open>None\<close> stands for a keyword that is not passed. A required
  field (\<^verbatim>\<open>Field(...)\<close> or no default) that is missing, a literal outside its set and a
  number below its \<^verbatim>\<open>ge\<close> bound each add the field's name to the \<^verbatim>\<open>ValidationError\<close>.
\<close>

record Character =
  username :: string
  name :: string
  bio :: "string option"
  avatar_url :: "string option"
  interests :: "string list"
  followers :: int
  following :: int

record Post =
  author_type :: string
  author_id :: string
  type :: string
  media_url :: string
  caption :: "string option"
  hashtags :: "string list"
  like_count :: int
  comment_count :: int

record Story =
  author_type :: string
  author_id :: string
  media_url :: string
  text_overlay :: "string option"
  expires_at :: "string option"

record Reel =
  author_type :: string
  author_id :: string
  media_url :: string
  caption :: "string option"
  like_count :: int
  comment_count :: int

definition required :: "string \<Rightarrow> 'a option \<Rightarrow> string list" where
  "required field v = (case v of None \<Rightarrow> [field] | Some _ \<Rightarrow> [])"

definition literal :: "string \<Rightarrow> string list \<Rightarrow> string option \<Rightarrow> string list" where
  "literal field allowed v =
     (case v of None \<Rightarrow> [] | Some x \<Rightarrow> if x \<in> set allowed then [] else [field])"

definition ge :: "string \<Rightarrow> int \<Rightarrow> int option \<Rightarrow> string list" where
  "ge field bound v = (case v of None \<Rightarrow> [] | Some x \<Rightarrow> if bound \<le> x then [] else [field])"

definition default :: "'a \<Rightarrow> 'a option \<Rightarrow> 'a" where
  "default d v = (case v of None \<Rightarrow> d | Some x \<Rightarrow> x)"

definition validated :: "string list \<Rightarrow> 'a \<Rightarrow> exn + 'a" where
  "validated errors r = (if errors = [] then Inr r else Inl (ValidationError errors))"

definition new_Character ::
  "string option \<Rightarrow> string option \<Rightarrow> string option \<Rightarrow> string option \<Rightarrow>
   string list option \<Rightarrow> int option \<Rightarrow> int option \<Rightarrow> exn + Character" where
  "new_Character username' name' bio' avatar_url' interests' followers' following' =
     validated
       (required ''username'' username' @ required ''name'' name' @
        ge ''followers'' 0 followers' @ ge ''following'' 0 following')
       \<lparr>Character.username = the username',
        Character.name = the name',
        Character.bio = bio',
        Character.avatar_url = avatar_url',
        Character.interests = default [] interests',
        Character.followers = default 0 followers',
        Character.following = default 0 following'\<rparr>"

definition new_Post ::
  "string option \<Rightarrow> string option \<Rightarrow> string option \<Rightarrow> string option \<Rightarrow> string option \<Rightarrow>
   string list option \<Rightarrow> int option \<Rightarrow> int option \<Rightarrow> exn + Post" where
  "new_Post author_type' author_id' type' media_url' caption' hashtags' like_count'
     comment_count' =
     validated
       (literal ''author_type'' [''character'', ''user''] author_type' @
        required ''author_id'' author_id' @
        literal ''type'' [''image'', ''video''] type' @
        required ''media_url'' media_url' @
        ge ''like_count'' 0 like_count' @ ge ''comment_count'' 0 comment_count')
       \<lparr>Post.author_type = default ''character'' author_type',
        Post.author_id = the author_id',
        Post.type = default ''image'' type',
        Post.media_url = the media_url',
        Post.caption = caption',
        Post.hashtags = default [] hashtags',
        Post.like_count = default 0 like_count',
        Post.comment_count = default 0 comment_count'\<rparr>"

definition new_Story ::
  "string option \<Rightarrow> string option \<Rightarrow> string option \<Rightarrow> string option \<Rightarrow> string option \<Rightarrow>
   exn + Story" where
  "new_Story author_type' author_id' media_url' text_overlay' expires_at' =
     validated
       (literal ''author_type'' [''character'', ''user''] author_type' @
        required ''author_id'' author_id' @
        required ''media_url'' media_url')
       \<lparr>Story.author_type = default ''character'' author_type',
        Story.author_id = the author_id',
        Story.media_url = the media_url',
        Story.text_overlay = text_overlay',
        Story.expires_at = expires_at'\<rparr>"

definition new_Reel ::
  "string option \<Rightarrow> string option \<Rightarrow> string option \<Rightarrow> string option \<Rightarrow> int option \<Rightarrow>
   int option \<Rightarrow> exn + Reel" where
  "new_Reel author_type' author_id' media_url' caption' like_count' comment_count' =
     validated
       (literal ''author_type'' [''character'', ''user''] author_type' @
        required ''author_id'' author_id' @
        required ''media_url'' media_url')
       \<lparr>Reel.author_type = default ''character'' author_type',
        Reel.author_id = the author_id',
        Reel.media_url = the media_url',
        Reel.caption = caption',
        Reel.like_count = default 0 like_count',
        Reel.comment_count = default 0 comment_count'\<rparr>"

record User =
  username :: string
  name :: "string option"
  bio :: "string option"
  avatar_url :: "string option"

record Comment =
  post_id :: string
  author_type :: string
  author_id :: string
  text' :: string

record Conversation =
  participant_ids :: "string list"

record Message =
  conversation_id :: string
  author_type :: string
  author_id :: string
  text' :: "string option"
  media_url :: "string option"

record Notification =
  user_id :: string
  type :: string
  actor_id :: string
  actor_type :: string
  post_id :: "string option"
  message :: "string option"

definition new_User ::
  "string option \<Rightarrow> string option \<Rightarrow> string option \<Rightarrow> string option \<Rightarrow> exn + User" where
  "new_User username' name' bio' avatar_url' =
     validated
       (required ''username'' username')
       \<lparr>User.username = the username',
        User.name = name',
        User.bio = bio',
        User.avatar_url = avatar_url'\<rparr>"

definition new_Comment ::
  "string option \<Rightarrow> string option \<Rightarrow> string option \<Rightarrow> string option \<Rightarrow> exn + Comment" where
  "new_Comment post_id' author_type' author_id' text'' =
     validated
       (required ''post_id'' post_id' @
        literal ''author_type'' [''character'', ''user''] author_type' @
        required ''author_id'' author_id' @
        required ''text'' text'')
       \<lparr>Comment.post_id = the post_id',
        Comment.author_type = default ''character'' author_type',
        Comment.author_id = the author_id',
        Comment.text' = the text''\<rparr>"

definition new_Conversation :: "string list option \<Rightarrow> exn + Conversation" where
  "new_Conversation participant_ids' =
     validated
       (required ''participant_ids'' participant_ids')
       \<lparr>Conversation.participant_ids = the participant_ids'\<rparr>"

definition new_Message ::
  "string option \<Rightarrow> string option \<Rightarrow> string option \<Rightarrow> string option \<Rightarrow> string option \<Rightarrow>
   exn + Message" where
  "new_Message conversation_id' author_type' author_id' text'' media_url' =
     validated
       (required ''conversation_id'' conversation_id' @
        literal ''author_type'' [''character'', ''user''] author_type' @
        required ''author_id'' author_id')
       \<lparr>Message.conversation_id = the conversation_id',
        Message.author_type = default ''character'' author_type',
        Message.author_id = the author_id',
        Message.text' = text'',
        Message.media_url = media_url'\<rparr>"

definition new_Notification ::
  "string option \<Rightarrow> string option \<Rightarrow> string option \<Rightarrow> string option \<Rightarrow> string option \<Rightarrow>
   string option \<Rightarrow> exn + Notification" where
  "new_Notification user_id' type' actor_id' actor_type' post_id' message' =
     validated
       (required ''user_id'' user_id' @
        required ''type'' type' @ literal ''type'' [''like'', ''comment'', ''follow''] type' @
        required ''actor_id'' actor_id' @
        literal ''actor_type'' [''character'', ''user''] actor_type')
       \<lparr>Notification.user_id = the user_id',
        Notification.type = the type',
        Notification.actor_id = the actor_id',
        Notification.actor_type = default ''character'' actor_type',
        Notification.post_id = post_id',
        Notification.message = message'\<rparr>"

subsection \<open>The document store\<close>

text \<open>
  An \<^verbatim>\<open>ObjectId\<close> is represented by its canonical form, the lower-case hexadecimal
  digits that \<^verbatim>\<open>str\<close> prints (24 of them for a generated identifier), so \<open>str_oid\<close> is the
  identity. A stored document is the
  record that was inserted together with the identifier and the two timestamps the
  store adds; every write of the program inserts a validated record or increments a
  count, so a collection holds records of its schema. A collection either answers queries with its documents, in insertion
  order, or is unavailable, and then every operation on it raises the driver's error
  with the given text.
\<close>

type_synonym oid = string

definition str_oid :: "oid \<Rightarrow> string" where
  "str_oid i = i"

definition is_hex :: "char \<Rightarrow> bool" where
  "is_hex c = (c \<in> set ''0123456789abcdefABCDEF'')"

text \<open>
  \<^verbatim>\<open>bytes.fromhex(s)\<close>, as the digits of the bytes it reads: pairs of hexadecimal digits,
  with whitespace allowed before each pair and at the end; \<open>None\<close> is its \<^verbatim>\<open>ValueError\<close>.
\<close>

fun fromhex :: "string \<Rightarrow> string option" where
  "fromhex [] = Some []"
| "fromhex [c] = (if is_ascii_space c then Some [] else None)"
| "fromhex (c # d # cs) =
     (if is_ascii_space c then fromhex (d # cs)
      else if is_hex c \<and> is_hex d then map_option (\<lambda>r. c # d # r) (fromhex cs)
      else None)"

text \<open>
  \<^verbatim>\<open>ObjectId(s)\<close> for a string \<open>s\<close>: a string of 24 characters that \<^verbatim>\<open>bytes.fromhex\<close>
  reads, or \<^verbatim>\<open>InvalidId\<close>.
\<close>

definition ObjectId :: "string \<Rightarrow> exn + oid" where
  "ObjectId s =
     (if length s = 24
      then (case fromhex s of Some digits' \<Rightarrow> Inr (lower digits') | None \<Rightarrow> Inl (InvalidId s))
      else Inl (InvalidId s))"

record 'm document =
  doc_id :: oid
  body :: 'm
  created_at :: nat
  updated_at :: nat

text \<open>
  A \<^verbatim>\<open>datetime\<close> is stored with the precision of a millisecond: the time, in
  microseconds, as the store keeps it.
\<close>

definition bson_datetime :: "nat \<Rightarrow> nat" where
  "bson_datetime t = t div 1000 * 1000"

datatype 'm collection = Collection "'m document list" | Unavailable string

record store =
  character :: "Character collection"
  post :: "Post collection"
  story :: "Story collection"

record sys =
  db :: "store option"
  rand :: "nat \<Rightarrow> nat"
  clock :: "nat \<Rightarrow> nat"
  oids :: "nat \<Rightarrow> oid"

subsection \<open>Actions: state and exceptions\<close>

type_synonym 'a act = "sys \<Rightarrow> (exn + 'a) \<times> sys"

definition ret :: "'a \<Rightarrow> 'a act" where
  "ret x = (\<lambda>s. (Inr x, s))"

definition raise :: "exn \<Rightarrow> 'a act" where
  "raise e = (\<lambda>s. (Inl e, s))"

definition bind :: "'a act \<Rightarrow> ('a \<Rightarrow> 'b act) \<Rightarrow> 'b act" where
  "bind m f = (\<lambda>s. case m s of (Inl e, s') \<Rightarrow> (Inl e, s') | (Inr x, s') \<Rightarrow> f x s')"

text \<open>\<^verbatim>\<open>try: m  except Exception as e: h(e)\<close>\<close>

definition try_except :: "'a act \<Rightarrow> (exn \<Rightarrow> 'a act) \<Rightarrow> 'a act" where
  "try_except m h = (\<lambda>s. case m s of (Inl e, s') \<Rightarrow> h e s' | (Inr x, s') \<Rightarrow> (Inr x, s'))"

definition lift :: "exn + 'a \<Rightarrow> 'a act" where
  "lift r = (case r of Inl e \<Rightarrow> raise e | Inr x \<Rightarrow> ret x)"

subsection \<open>Randomness and time\<close>

definition next_rand :: "nat act" where
  "next_rand = (\<lambda>s. (Inr (rand s 0), s\<lparr>rand := (\<lambda>i. rand s (Suc i))\<rparr>))"

text \<open>\<^verbatim>\<open>random.randint(a, b)\<close>: an integer of \<open>[a, b]\<close>.\<close>

definition randint :: "int \<Rightarrow> int \<Rightarrow> int act" where
  "randint a b =
     (if b < a then raise (ValueError ''empty range for randrange()'')
      else bind next_rand (\<lambda>r. ret (a + int (r mod nat (b - a + 1)))))"

text \<open>\<^verbatim>\<open>random.choice(xs)\<close>\<close>

definition choice :: "'a list \<Rightarrow> 'a act" where
  "choice xs =
     (if xs = [] then raise (IndexError ''Cannot choose from an empty sequence'')
      else bind next_rand (\<lambda>r. ret (xs ! (r mod length xs))))"

text \<open>\<^verbatim>\<open>random.sample(xs, k)\<close>: \<open>k\<close> elements at distinct positions of \<open>xs\<close>.\<close>

fun draw :: "nat \<Rightarrow> 'a list \<Rightarrow> 'a list act" where
  "draw 0 xs = ret []"
| "draw (Suc k) xs =
     bind next_rand (\<lambda>r.
       let j = r mod length xs in
       bind (draw k (take j xs @ drop (Suc j) xs)) (\<lambda>rest. ret (xs ! j # rest)))"

definition sample :: "'a list \<Rightarrow> int \<Rightarrow> 'a list act" where
  "sample xs k =
     (if k < 0 \<or> int (length xs) < k
      then raise (ValueError ''Sample larger than population or is negative'')
      else draw (nat k) xs)"

text \<open>
  \<^verbatim>\<open>_now()\<close>: the current time, in microseconds since the epoch.
\<close>

definition now :: "nat act" where
  "now = (\<lambda>s. (Inr (clock s 0), s\<lparr>clock := (\<lambda>i. clock s (Suc i))\<rparr>))"

definition new_oid :: "oid act" where
  "new_oid = (\<lambda>s. (Inr (oids s 0), s\<lparr>oids := (\<lambda>i. oids s (Suc i))\<rparr>))"

text \<open>
  \<^verbatim>\<open>datetime.isoformat()\<close> of a UTC time: the civil date of the day number, then the time
  of day, with the microseconds when they are not zero. The clock is taken to stay
  within the years a \<^verbatim>\<open>datetime\<close> can hold.
\<close>

definition pad :: "nat \<Rightarrow> nat \<Rightarrow> string" where
  "pad w n = replicate (w - length (str_nat n)) CHR ''0'' @ str_nat n"

definition civil :: "nat \<Rightarrow> nat \<times> nat \<times> nat" where
  "civil days =
     (let z = days + 719468;
          era = z div 146097;
          doe = z mod 146097;
          yoe = (doe - doe div 1460 + doe div 36524 - doe div 146096) div 365;
          doy = doe - (365 * yoe + yoe div 4 - yoe div 100);
          mp = (5 * doy + 2) div 153;
          d = doy - (153 * mp + 2) div 5 + 1;
          m = (if mp < 10 then mp + 3 else mp - 9);
          y = yoe + era * 400 + (if m \<le> 2 then 1 else 0)
      in (y, m, d))"

definition isoformat :: "nat \<Rightarrow> string" where
  "isoformat t =
     (let us = t mod 1000000;
          secs = t div 1000000;
          (y, m, d) = civil (secs div 86400);
          sod = secs mod 86400
      in pad 4 y @ ''-'' @ pad 2 m @ ''-'' @ pad 2 d @ ''T'' @
         pad 2 (sod div 3600) @ '':'' @ pad 2 (sod mod 3600 div 60) @ '':'' @ pad 2 (sod mod 60) @
         (if us = 0 then [] else ''.'' @ pad 6 us) @ ''+00:00'')"

text \<open>\<^verbatim>\<open>timedelta(hours=h)\<close>, in microseconds.\<close>

definition hours :: "nat \<Rightarrow> nat" where
  "hours h = h * 3600 * 1000000"

subsection \<open>The driver's operations\<close>

text \<open>
  \<^verbatim>\<open>db["character"]\<close>, \<^verbatim>\<open>db["post"]\<close> and \<^verbatim>\<open>db["story"]\<close> are references to the three
  collections: how to read the collection from the store and how to write it back.
  Subscripting the handle when it is \<open>None\<close> is Python's \<^verbatim>\<open>TypeError\<close>.
\<close>

type_synonym 'm coll_ref = "(store \<Rightarrow> 'm collection) \<times> ('m collection \<Rightarrow> store \<Rightarrow> store)"

definition character_ref :: "Character coll_ref" where
  "character_ref = (character, \<lambda>c st. st\<lparr>character := c\<rparr>)"

definition post_ref :: "Post coll_ref" where
  "post_ref = (post, \<lambda>c st. st\<lparr>post := c\<rparr>)"

definition story_ref :: "Story coll_ref" where
  "story_ref = (story, \<lambda>c st. st\<lparr>story := c\<rparr>)"

definition not_subscriptable :: exn where
  "not_subscriptable = TypeError ([CHR 0x27] @ ''NoneType'' @ [CHR 0x27] @ '' object is not subscriptable'')"

definition subscript_db :: "unit act" where
  "subscript_db = (\<lambda>s.
     case db s of None \<Rightarrow> (Inl not_subscriptable, s) | Some st \<Rightarrow> (Inr (), s))"

definition db_get :: "'m coll_ref \<Rightarrow> 'm document list act" where
  "db_get ref = (\<lambda>s.
     case db s of
       None \<Rightarrow> (Inl not_subscriptable, s)
     | Some st \<Rightarrow>
         (case fst ref st of
            Unavailable msg \<Rightarrow> (Inl (PyMongoError msg), s)
          | Collection ds \<Rightarrow> (Inr ds, s)))"

definition db_put :: "'m coll_ref \<Rightarrow> 'm document list \<Rightarrow> unit act" where
  "db_put ref ds = (\<lambda>s.
     case db s of
       None \<Rightarrow> (Inl not_subscriptable, s)
     | Some st \<Rightarrow> (Inr (), s\<lparr>db := Some (snd ref (Collection ds) st)\<rparr>))"

text \<open>\<^verbatim>\<open>coll.count_documents({})\<close>\<close>

definition count_documents :: "'m coll_ref \<Rightarrow> int act" where
  "count_documents ref = bind (db_get ref) (\<lambda>ds. ret (int (length ds)))"

text \<open>\<^verbatim>\<open>coll.find({})\<close>, and \<^verbatim>\<open>coll.find(q)\<close> for a filter \<open>q\<close> on the documents.\<close>

definition find_docs :: "'m coll_ref \<Rightarrow> 'm document list act" where
  "find_docs ref = db_get ref"

definition find_where :: "'m coll_ref \<Rightarrow> ('m document \<Rightarrow> bool) \<Rightarrow> 'm document list act" where
  "find_where ref q = bind (db_get ref) (\<lambda>ds. ret (filter q ds))"

text \<open>
  \<^verbatim>\<open>cursor.limit(n)\<close>: a limit of 0 is no limit, and the driver sends the absolute value
  of a negative one.
\<close>

definition limit :: "int \<Rightarrow> 'a list \<Rightarrow> 'a list" where
  "limit n xs = (if n = 0 then xs else take (nat \<bar>n\<bar>) xs)"

text \<open>
  \<^verbatim>\<open>cursor.sort("created_at", -1)\<close>: the latest first. The store does not say in which
  order it returns documents of the same time; here they keep their order, and no
  statement below depends on it.
\<close>

definition sort_created_desc :: "'m document list \<Rightarrow> 'm document list" where
  "sort_created_desc ds = sort_key (\<lambda>d. - int (created_at d)) ds"

text \<open>\<^verbatim>\<open>coll.insert_one(d)\<close>: the driver gives the document its identifier.\<close>

definition insert_one :: "'m coll_ref \<Rightarrow> (oid \<Rightarrow> 'm document) \<Rightarrow> oid act" where
  "insert_one ref d =
     bind (db_get ref) (\<lambda>ds.
     bind new_oid (\<lambda>i.
     bind (db_put ref (ds @ [d i])) (\<lambda>_.
     ret i)))"

text \<open>
  \<^verbatim>\<open>coll.update_one({"_id": i}, u)\<close>: the first document with the identifier is updated;
  the result is \<^verbatim>\<open>modified_count\<close>, 1 when a document matched and the update changed
  it.
\<close>

fun update_first :: "('a \<Rightarrow> bool) \<Rightarrow> ('a \<Rightarrow> 'a) \<Rightarrow> 'a list \<Rightarrow> 'a list" where
  "update_first q u [] = []"
| "update_first q u (d # ds) = (if q d then u d # ds else d # update_first q u ds)"

definition update_one ::
  "'m coll_ref \<Rightarrow> oid \<Rightarrow> ('m document \<Rightarrow> 'm document) \<Rightarrow> nat act" where
  "update_one ref i u =
     bind (db_get ref) (\<lambda>ds.
       case find (\<lambda>d. doc_id d = i) ds of
         None \<Rightarrow> ret 0
       | Some d \<Rightarrow>
           if u d = d then ret 0
           else bind (db_put ref (update_first (\<lambda>d. doc_id d = i) u ds)) (\<lambda>_. ret 1))"

text \<open>\<^verbatim>\<open>coll.find_one({"_id": i})\<close>\<close>

definition find_one :: "'m coll_ref \<Rightarrow> oid \<Rightarrow> 'm document option act" where
  "find_one ref i = bind (db_get ref) (\<lambda>ds. ret (find (\<lambda>d. doc_id d = i) ds))"

text \<open>
  Modelled from the spec: \<^verbatim>\<open>create_document\<close> of the persistence adapter
  (\<^verbatim>\<open>database.py\<close>), which "validates a record against its schema, serializes it to a
  plain mapping, and inserts it, returning the generated identifier", and "stamps
  \<^verbatim>\<open>created_at\<close>/\<^verbatim>\<open>updated_at\<close> (UTC) onto every record before writing". The record it is
  given was validated by its constructor.
\<close>

definition create_document :: "'m coll_ref \<Rightarrow> 'm \<Rightarrow> string act" where
  "create_document ref data =
     bind now (\<lambda>t.
     bind (insert_one ref (\<lambda>i. \<lparr>doc_id = i, body = data, created_at = bson_datetime t,
                                 updated_at = bson_datetime t\<rparr>)) (\<lambda>i.
     ret (str_oid i)))"

section \<open>The bootstrap seeder (\<^verbatim>\<open>ensure_bootstrap\<close>)\<close>

record BootstrapResponse =
  characters :: int
  posts :: int
  stories :: int

definition first_names :: "string list" where
  "first_names =
     [''Ava'', ''Liam'', ''Noah'', ''Mia'', ''Zoe'', ''Kai'', ''Leo'', ''Ivy'', ''Nora'', ''Mila'',
      ''Aria'', ''Ezra'', ''Finn'', ''Luna'', ''Nova'', ''Zara'', ''Enzo'', ''Atlas'', ''Jade'', ''Ada'']"

definition last_names :: "string list" where
  "last_names =
     [''Wilde'', ''Rivera'', ''Okafor'', ''Nguyen'', ''Kim'', ''Singh'', ''Khan'', ''Garcia'',
      ''Silva'', ''Ivanov'', ''Sato'', ''Hernandez'', ''Smith'', ''Brown'']"

definition interests_pool :: "string list" where
  "interests_pool =
     [''travel'', ''food'', ''art'', ''fitness'', ''tech'', ''gaming'', ''fashion'', ''music'',
      ''photo'', ''nature'', ''design'', ''books'', ''coffee'', ''pets'', ''memes'']"

text \<open>The globe of the bio, as the four bytes of its UTF-8 encoding.\<close>

definition globe :: string where
  "globe = [CHR 0xF0, CHR 0x9F, CHR 0x8C, CHR 0x90]"

text \<open>One round of the first loop (lines 56 to 68): a character is drawn and inserted.\<close>

definition seed_character :: "unit act" where
  "seed_character =
     bind (choice first_names) (\<lambda>first.
     bind (choice last_names) (\<lambda>last.
     let name' = first @ '' '' @ last in
     bind (lift (split_first name')) (\<lambda>word.
     bind (randint 100 999) (\<lambda>suffix.
     let username' = lower (word @ str_int suffix) in
     bind (choice [''virtual'', ''creative'', ''digital'', ''urban'', ''cozy'']) (\<lambda>adjective.
     bind (randint 1 70) (\<lambda>img.
     bind (randint 2 4) (\<lambda>k.
     bind (sample interests_pool k) (\<lambda>tags.
     bind (randint 100 9000) (\<lambda>followers'.
     bind (randint 50 900) (\<lambda>following'.
     bind (lift (new_Character
                   (Some username')
                   (Some name')
                   (Some (join_space [''Exploring'', adjective, ''worlds '' @ globe]))
                   (Some (''https://i.pravatar.cc/150?img='' @ str_int img))
                   (Some tags)
                   (Some followers')
                   (Some following'))) (\<lambda>char.
     bind (create_document character_ref char) (\<lambda>_.
     ret ()))))))))))))"

fun seed_characters :: "nat \<Rightarrow> int \<Rightarrow> int act" where
  "seed_characters 0 created_chars = ret created_chars"
| "seed_characters (Suc n) created_chars =
     bind seed_character (\<lambda>_. seed_characters n (created_chars + 1))"

text \<open>One round of the inner loop (lines 74 to 86): a post of the character \<open>c\<close>.\<close>

definition seed_post :: "Character document \<Rightarrow> unit act" where
  "seed_post c =
     bind (randint 1 9999) (\<lambda>n.
     let media_url' = ''https://picsum.photos/seed/'' @ Character.username (body c) @ ''-'' @
                      str_int n @ ''/800/1000'' in
     bind (choice [''Sunset vibes'', ''Daily snap'', ''Weekend mood'', ''New drop'',
                   ''Behind the scenes'']) (\<lambda>phrase.
     bind (choice interests_pool) (\<lambda>tag.
     bind (choice interests_pool) (\<lambda>h1.
     bind (choice interests_pool) (\<lambda>h2.
     bind (randint 10 5000) (\<lambda>likes.
     bind (randint 0 200) (\<lambda>comments.
     bind (lift (new_Post
                   (Some ''character'')
                   (Some (str_oid (doc_id c)))
                   (Some ''image'')
                   (Some media_url')
                   (Some (phrase @ '' #'' @ tag))
                   (Some [h1, h2])
                   (Some likes)
                   (Some comments))) (\<lambda>post'.
     bind (create_document post_ref post') (\<lambda>_.
     ret ())))))))))"

fun seed_posts :: "nat \<Rightarrow> Character document \<Rightarrow> int \<Rightarrow> int act" where
  "seed_posts 0 c created_posts = ret created_posts"
| "seed_posts (Suc n) c created_posts =
     bind (seed_post c) (\<lambda>_. seed_posts n c (created_posts + 1))"

text \<open>The story of the character \<open>c\<close> (lines 89 to 96).\<close>

definition seed_story :: "Character document \<Rightarrow> unit act" where
  "seed_story c =
     bind (choice [Some ''Out and about'', Some ''Work in progress'', Some ''New playlist'',
                   Some ''Coffee time'', None]) (\<lambda>overlay.
     bind now (\<lambda>t.
     bind (lift (new_Story
                   (Some ''character'')
                   (Some (str_oid (doc_id c)))
                   (Some (''https://picsum.photos/seed/story-'' @ Character.username (body c) @
                          ''/720/1280''))
                   overlay
                   (Some (isoformat (t + hours 24))))) (\<lambda>story'.
     bind (create_document story_ref story') (\<lambda>_.
     ret ()))))"

text \<open>The second loop (lines 72 to 97), over the characters read back from the store.\<close>

fun seed_content :: "Character document list \<Rightarrow> int \<Rightarrow> int \<Rightarrow> int \<Rightarrow> (int \<times> int) act" where
  "seed_content [] posts_per_character created_posts created_stories =
     ret (created_posts, created_stories)"
| "seed_content (c # cs) posts_per_character created_posts created_stories =
     bind (seed_posts (nat posts_per_character) c created_posts) (\<lambda>created_posts.
     bind (randint 0 1) (\<lambda>coin.
     if coin = 1
     then bind (seed_story c) (\<lambda>_.
          seed_content cs posts_per_character created_posts (created_stories + 1))
     else seed_content cs posts_per_character created_posts created_stories))"

definition ensure_bootstrap :: "int \<Rightarrow> int \<Rightarrow> BootstrapResponse act" where
  "ensure_bootstrap character_count posts_per_character = (\<lambda>s.
     if db s = None then raise (HTTPException 500 ''Database not configured'') s
     else
      (bind (count_documents character_ref) (\<lambda>existing.
       if existing \<ge> 5
       then bind (count_documents post_ref) (\<lambda>post_total.
            bind (count_documents story_ref) (\<lambda>story_total.
            ret \<lparr>characters = existing, posts = post_total, stories = story_total\<rparr>))
       else bind (seed_characters (nat character_count) 0) (\<lambda>created_chars.
            bind (find_docs character_ref) (\<lambda>found.
            bind (seed_content (limit character_count found) posts_per_character 0 0)
              (\<lambda>(created_posts, created_stories).
            ret \<lparr>characters = created_chars, posts = created_posts,
                 stories = created_stories\<rparr>))))) s)"

section \<open>The HTTP handlers\<close>

text \<open>
  \<^verbatim>\<open>str(e)\<close> of a caught exception: its message; for an \<^verbatim>\<open>HTTPException\<close> the status code
  and the detail, as the framework prints it.
\<close>

definition str_exn :: "exn \<Rightarrow> string" where
  "str_exn e =
     (case e of
        HTTPException code detail \<Rightarrow> str_nat code @ '': '' @ detail
      | TypeError msg \<Rightarrow> msg
      | IndexError msg \<Rightarrow> msg
      | ValueError msg \<Rightarrow> msg
      | InvalidId given \<Rightarrow>
          [CHR 0x27] @ given @ [CHR 0x27] @
          '' is not a valid ObjectId, it must be a 12-byte input or a 24-character hex string''
      | PyMongoError msg \<Rightarrow> msg
      | ValidationError names \<Rightarrow> ''validation error for '' @ join_space names)"

text \<open>
  What the framework answers: the result with status 200, the status and detail of an
  \<^verbatim>\<open>HTTPException\<close>, and for any other exception that leaves the handler the status 500
  with a fixed body.
\<close>

definition http_response :: "exn + 'a \<Rightarrow> nat \<times> (string + 'a)" where
  "http_response r =
     (case r of
        Inr x \<Rightarrow> (200, Inr x)
      | Inl (HTTPException code detail) \<Rightarrow> (code, Inl detail)
      | Inl _ \<Rightarrow> (500, Inl ''Internal Server Error''))"

definition api_bootstrap :: "BootstrapResponse act" where
  "api_bootstrap = ensure_bootstrap 24 2"

text \<open>
  A feed or story item: the stored document and, when it was hydrated, the \<open>author\<close>
  object.
\<close>

record Author =
  username :: "string"
  name :: "string"
  avatar_url :: "string option"

record 'm item =
  doc :: "'m document"
  author :: "Author option"

text \<open>
  \<^verbatim>\<open>jsonable_encoder\<close>. A list is encoded element by element and \<^verbatim>\<open>None\<close> is kept. A
  document is a mapping whose first key, \<^verbatim>\<open>_id\<close>, holds an \<^verbatim>\<open>ObjectId\<close>: the encoder has
  no rule for that type, fails to read it as a mapping and as an object with
  attributes, and raises a \<^verbatim>\<open>ValueError\<close> that lists the two failures. So no document
  is encoded, and neither is an item, which is its document with one more key. The
  encoded form of a value, where there is one, is written as the value itself.
\<close>

definition unencodable :: exn where
  "unencodable =
     ValueError (''[TypeError('' @ [CHR 0x22, CHR 0x27] @ ''ObjectId'' @ [CHR 0x27] @
                 '' object is not iterable'' @ [CHR 0x22] @ ''), TypeError('' @ [CHR 0x27] @
                 ''vars() argument must have __dict__ attribute'' @ [CHR 0x27] @ '')]'')"

definition encode_document :: "'m document \<Rightarrow> exn + 'm document" where
  "encode_document d = Inl unencodable"

definition encode_item :: "'m item \<Rightarrow> exn + 'm item" where
  "encode_item it =
     (case encode_document (doc it) of Inl e \<Rightarrow> Inl e | Inr d \<Rightarrow> Inr (it\<lparr>doc := d\<rparr>))"

fun encode_list :: "('a \<Rightarrow> exn + 'a) \<Rightarrow> 'a list \<Rightarrow> exn + 'a list" where
  "encode_list enc [] = Inr []"
| "encode_list enc (x # xs) =
     (case enc x of
        Inl e \<Rightarrow> Inl e
      | Inr y \<Rightarrow> (case encode_list enc xs of Inl e \<Rightarrow> Inl e | Inr ys \<Rightarrow> Inr (y # ys)))"

definition encode_option :: "('a \<Rightarrow> exn + 'a) \<Rightarrow> 'a option \<Rightarrow> exn + 'a option" where
  "encode_option enc v =
     (case v of
        None \<Rightarrow> Inr None
      | Some x \<Rightarrow> (case enc x of Inl e \<Rightarrow> Inl e | Inr y \<Rightarrow> Inr (Some y)))"

text \<open>\<^verbatim>\<open>{str(c.get("_id")): c for c in cs}\<close>: a later document replaces an earlier one.\<close>

definition char_map_of :: "Character document list \<Rightarrow> string \<Rightarrow> Character document option" where
  "char_map_of cs = foldl (\<lambda>m c. m(str_oid (doc_id c) \<mapsto> c)) Map.empty cs"

text \<open>
  \<^verbatim>\<open>get_feed\<close>. Lines 119 to 133 build the items: \<open>feed_items\<close>; line 134 encodes them,
  inside the same \<^verbatim>\<open>try\<close> block. The query of line 122 asks for the characters whose
  \<^verbatim>\<open>_id\<close> is in \<^verbatim>\<open>[None]\<close> (the conditional expression takes its \<^verbatim>\<open>else\<close> branch): no
  stored document has such an identifier, and its result is not used. A character found
  in the map is a document, which is never empty, so \<^verbatim>\<open>if c:\<close> holds exactly when the key
  is in the map.
\<close>

definition feed_items :: "int \<Rightarrow> Post item list act" where
  "feed_items limit' =
     bind (find_docs post_ref) (\<lambda>found.
     let posts' = limit limit' (sort_created_desc found) in
     bind (find_where character_ref (\<lambda>c. False)) (\<lambda>_.
     bind (find_docs character_ref) (\<lambda>cs.
     let char_map = char_map_of cs in
     ret (map (\<lambda>p.
            case char_map (Post.author_id (body p)) of
              Some c \<Rightarrow>
                \<lparr>doc = p,
                 author = Some \<lparr>Author.username = Character.username (body c),
                                Author.name = Character.name (body c),
                                Author.avatar_url = Character.avatar_url (body c)\<rparr>\<rparr>
            | None \<Rightarrow> \<lparr>doc = p, author = None\<rparr>) posts'))))"

definition get_feed :: "int \<Rightarrow> Post item list act" where
  "get_feed limit' =
     try_except
       (bind (feed_items limit') (\<lambda>posts'.
        lift (encode_list encode_item posts')))
       (\<lambda>e. raise (HTTPException 500 (str_exn e)))"

text \<open>
  \<^verbatim>\<open>get_stories\<close>: lines 141 to 150 build the items, line 151 encodes them; no \<^verbatim>\<open>try\<close>.
\<close>

definition story_items :: "int \<Rightarrow> Story item list act" where
  "story_items limit' =
     bind (find_docs story_ref) (\<lambda>found.
     let stories' = limit limit' (sort_created_desc found) in
     bind (find_docs character_ref) (\<lambda>cs.
     let char_map = char_map_of cs in
     ret (map (\<lambda>s.
            case char_map (Story.author_id (body s)) of
              Some c \<Rightarrow>
                \<lparr>doc = s,
                 author = Some \<lparr>Author.username = Character.username (body c),
                                Author.name = Character.name (body c),
                                Author.avatar_url = Character.avatar_url (body c)\<rparr>\<rparr>
            | None \<Rightarrow> \<lparr>doc = s, author = None\<rparr>) stories')))"

definition get_stories :: "int \<Rightarrow> Story item list act" where
  "get_stories limit' =
     bind (story_items limit') (\<lambda>stories'.
     lift (encode_list encode_item stories'))"

definition get_characters :: "int \<Rightarrow> Character document list act" where
  "get_characters limit' =
     bind (find_docs character_ref) (\<lambda>found.
     lift (encode_list encode_document (limit limit' found)))"

text \<open>
  \<^verbatim>\<open>like_post\<close>: the \<^verbatim>\<open>HTTPException\<close> with status 404 is raised inside the \<^verbatim>\<open>try\<close> block,
  whose handler catches every \<^verbatim>\<open>Exception\<close>; so is the encoder's exception. The store
  keeps the new \<^verbatim>\<open>updated_at\<close> with its own precision.
\<close>

definition like_post :: "string \<Rightarrow> Post document option act" where
  "like_post post_id' =
     try_except
       (bind subscript_db (\<lambda>_.
        bind (lift (ObjectId post_id')) (\<lambda>i.
        bind now (\<lambda>t.
        bind (update_one post_ref i
                (\<lambda>d. d\<lparr>body := (body d)\<lparr>Post.like_count := Post.like_count (body d) + 1\<rparr>,
                        updated_at := bson_datetime t\<rparr>)) (\<lambda>modified_count.
        if modified_count = 0 then raise (HTTPException 404 ''Post not found'')
        else bind (lift (ObjectId post_id')) (\<lambda>i.
             bind (find_one post_ref i) (\<lambda>post'.
             lift (encode_option encode_document post'))))))))
       (\<lambda>e. raise (HTTPException 400 (str_exn e)))"

section \<open>Reasoning about actions\<close>

text \<open>
  \<open>succeeds m s Q\<close>: run from the state \<open>s\<close>, the action \<open>m\<close> raises no exception, and
  its result and final state satisfy \<open>Q\<close>.
\<close>

definition succeeds :: "'a act \<Rightarrow> sys \<Rightarrow> ('a \<Rightarrow> sys \<Rightarrow> bool) \<Rightarrow> bool" where
  "succeeds m s Q = (case m s of (Inl e, s') \<Rightarrow> False | (Inr x, s') \<Rightarrow> Q x s')"

section \<open>Predicates of the statements\<close>

text \<open>What the seeder writes for the character \<open>c\<close>: a post, and a story.\<close>

definition posted_by :: "Character document \<Rightarrow> Post document \<Rightarrow> bool" where
  "posted_by c p =
     (Post.author_type (body p) = ''character'' \<and> Post.type (body p) = ''image'' \<and>
      Post.author_id (body p) = str_oid (doc_id c))"

definition told_by :: "Character document \<Rightarrow> Story document \<Rightarrow> bool" where
  "told_by c t =
     (Story.author_type (body t) = ''character'' \<and>
      Story.author_id (body t) = str_oid (doc_id c))"

text \<open>The \<open>author\<close> object of a character, and the item the two read handlers build.\<close>

definition summary :: "Character document \<Rightarrow> Author" where
  "summary c =
     \<lparr>Author.username = Character.username (body c),
      Author.name = Character.name (body c),
      Author.avatar_url = Character.avatar_url (body c)\<rparr>"

definition hydrate :: "Character document list \<Rightarrow> string \<Rightarrow> 'm document \<Rightarrow> 'm item" where
  "hydrate cs k d =
     (case char_map_of cs k of
        Some c \<Rightarrow> \<lparr>doc = d, author = Some (summary c)\<rparr>
      | None \<Rightarrow> \<lparr>doc = d, author = None\<rparr>)"

text \<open>
  The outcome of a constructor, and the conditions on its keywords: a keyword that is
  passed, a literal in its set, a number not below its bound. A literal or a number
  that is not passed takes the default of the field.
\<close>

definition accepted :: "exn + 'a \<Rightarrow> bool" where
  "accepted r = (case r of Inr _ \<Rightarrow> True | Inl _ \<Rightarrow> False)"

definition rejected :: "exn + 'a \<Rightarrow> bool" where
  "rejected r = (case r of Inl (ValidationError _) \<Rightarrow> True | _ \<Rightarrow> False)"

definition decides :: "exn + 'a \<Rightarrow> bool \<Rightarrow> bool" where
  "decides r ok = (if ok then accepted r else rejected r)"

definition present :: "'a option \<Rightarrow> bool" where
  "present v = (v \<noteq> None)"

definition among :: "string list \<Rightarrow> string option \<Rightarrow> bool" where
  "among allowed v = (case v of None \<Rightarrow> True | Some x \<Rightarrow> x \<in> set allowed)"

definition at_least :: "int \<Rightarrow> int option \<Rightarrow> bool" where
  "at_least bound v = (case v of None \<Rightarrow> True | Some x \<Rightarrow> bound \<le> x)"

section \<open>Example states\<close>

definition unset :: sys where
  "unset = \<lparr>db = None, rand = (\<lambda>i. 7 * i + 3), clock = (\<lambda>i. 1700000000000000 + i),
            oids = (\<lambda>i. pad 24 (100 + i))\<rparr>"

definition empty_store :: store where
  "empty_store = \<lparr>character = Collection [], post = Collection [], story = Collection []\<rparr>"

definition fresh :: sys where
  "fresh = unset\<lparr>db := Some empty_store\<rparr>"

definition persona :: "oid \<Rightarrow> string \<Rightarrow> Character document" where
  "persona i handle =
     \<lparr>doc_id = i,
      body = \<lparr>Character.username = handle,
              Character.name = ''Ava Wilde'',
              Character.bio = None,
              Character.avatar_url = Some ''https://i.pravatar.cc/150?img=7'',
              Character.interests = [''art'', ''tech''],
              Character.followers = 100,
              Character.following = 50\<rparr>,
      created_at = 1600000000000000,
      updated_at = 1600000000000000\<rparr>"

definition snap :: "oid \<Rightarrow> string \<Rightarrow> Post document" where
  "snap i author' =
     \<lparr>doc_id = i,
      body = \<lparr>Post.author_type = ''character'',
              Post.author_id = author',
              Post.type = ''image'',
              Post.media_url = ''https://picsum.photos/seed/ava101-1/800/1000'',
              Post.caption = Some ''Daily snap #art'',
              Post.hashtags = [''art'', ''tech''],
              Post.like_count = 10,
              Post.comment_count = 0\<rparr>,
      created_at = 1600000000000001,
      updated_at = 1600000000000001\<rparr>"

definition personas :: "Character document list" where
  "personas =
     [persona ''000000000000000000000001'' ''ava101'',
      persona ''000000000000000000000002'' ''ava102'',
      persona ''000000000000000000000003'' ''ava103'',
      persona ''000000000000000000000004'' ''ava104'',
      persona ''000000000000000000000005'' ''ava105'']"

definition snaps :: "Post document list" where
  "snaps =
     [snap ''00000000000000000000000a'' ''000000000000000000000001'',
      snap ''00000000000000000000000b'' ''000000000000000000000009'']"

definition seeded_store :: store where
  "seeded_store = \<lparr>character = Collection personas, post = Collection snaps,
                    story = Collection []\<rparr>"

definition seeded :: sys where
  "seeded = unset\<lparr>db := Some seeded_store\<rparr>"

definition tale :: "oid \<Rightarrow> string \<Rightarrow> Story document" where
  "tale i author' =
     \<lparr>doc_id = i,
      body = \<lparr>Story.author_type = ''character'',
              Story.author_id = author',
              Story.media_url = ''https://picsum.photos/seed/story-ava101/720/1280'',
              Story.text_overlay = Some ''Coffee time'',
              Story.expires_at = Some ''2020-09-14T12:26:40+00:00''\<rparr>,
      created_at = 1600000000000002,
      updated_at = 1600000000000002\<rparr>"

definition storied :: sys where
  "storied =
     unset\<lparr>db := Some (seeded_store\<lparr>story :=
       Collection [tale ''00000000000000000000000c'' ''000000000000000000000001'']\<rparr>)\<rparr>"

definition stories_down :: sys where
  "stories_down =
     unset\<lparr>db := Some (seeded_store\<lparr>story := Unavailable ''connection refused''\<rparr>)\<rparr>"

definition characters_down :: sys where
  "characters_down =
     unset\<lparr>db := Some (seeded_store\<lparr>character := Unavailable ''connection refused''\<rparr>)\<rparr>"

definition posts_down :: sys where
  "posts_down =
     unset\<lparr>db := Some (seeded_store\<lparr>post := Unavailable ''connection refused''\<rparr>)\<rparr>"

section \<open>Actions that succeed\<close>

lemma succeeds_iff: "succeeds m s Q \<longleftrightarrow> (\<exists>x s'. m s = (Inr x, s') \<and> Q x s')"
  by (auto simp: succeeds_def split: prod.splits sum.splits)

lemma succeeds_ret: "Q x s \<Longrightarrow> succeeds (ret x) s Q"
  by (simp add: succeeds_def ret_def)

lemma succeeds_bind:
  assumes "succeeds m s P" and "\<And>x s'. P x s' \<Longrightarrow> succeeds (f x) s' Q"
  shows "succeeds (bind m f) s Q"
proof -
  from assms(1) obtain x s' where m: "m s = (Inr x, s')" and p: "P x s'"
    by (auto simp: succeeds_iff)
  from assms(2) [OF p] show ?thesis
    by (simp add: succeeds_def bind_def m)
qed

lemma succeeds_mono:
  assumes "succeeds m s P" and "\<And>x s'. P x s' \<Longrightarrow> Q x s'"
  shows "succeeds m s Q"
  using assms by (auto simp: succeeds_def split: prod.splits sum.splits)

lemma lift_ok: "r = Inr x \<Longrightarrow> succeeds (lift r) s (\<lambda>y s'. s' = s \<and> y = x)"
  by (simp add: succeeds_def lift_def ret_def)

lemma lift_some_ok: "\<exists>x. r = Inr x \<Longrightarrow> succeeds (lift r) s (\<lambda>y s'. s' = s)"
  by (auto simp: succeeds_def lift_def ret_def)

lemma next_rand_ok: "succeeds next_rand s (\<lambda>r s'. db s' = db s)"
  by (simp add: succeeds_def next_rand_def)

lemma randint_ok:
  assumes "a \<le> b"
  shows "succeeds (randint a b) s (\<lambda>x s'. db s' = db s \<and> a \<le> x \<and> x \<le> b)"
proof -
  have "int (r mod nat (b - a + 1)) \<le> b - a" for r
  proof -
    have "r mod nat (b - a + 1) < nat (b - a + 1)" using assms by simp
    then show ?thesis using assms by linarith
  qed
  then have "a + int (r mod nat (b - a + 1)) \<le> b" for r
    by (smt (verit))
  then show ?thesis
    using assms by (simp add: randint_def succeeds_def bind_def next_rand_def ret_def)
qed

lemma choice_ok:
  assumes "xs \<noteq> []"
  shows "succeeds (choice xs) s (\<lambda>x s'. db s' = db s \<and> x \<in> set xs)"
  using assms by (simp add: choice_def succeeds_def bind_def next_rand_def ret_def)

lemma choice_db:
  assumes "xs \<noteq> []"
  shows "succeeds (choice xs) s (\<lambda>x s'. db s' = db s)"
  using assms by (simp add: choice_def succeeds_def bind_def next_rand_def ret_def)

lemma draw_ok:
  "k \<le> length xs \<Longrightarrow> succeeds (draw k xs) s (\<lambda>ys s'. db s' = db s \<and> length ys = k)"
proof (induction k arbitrary: xs s)
  case 0
  then show ?case by (simp add: succeeds_ret)
next
  case (Suc k)
  then have ne: "xs \<noteq> []" by auto
  show ?case
    unfolding draw.simps
  proof (rule succeeds_bind [OF next_rand_ok])
    fix r and s' :: sys assume d: "db s' = db s"
    let ?j = "r mod length xs"
    have "?j < length xs" using ne by simp
    then have "k \<le> length (take ?j xs @ drop (Suc ?j) xs)" using Suc.prems by simp
    from Suc.IH [OF this, where s = s']
    show "succeeds (let j = r mod length xs in
             bind (draw k (take j xs @ drop (Suc j) xs)) (\<lambda>rest. ret (xs ! j # rest))) s'
            (\<lambda>ys s'. db s' = db s \<and> length ys = Suc k)"
      unfolding Let_def
      by (rule succeeds_bind) (simp add: succeeds_ret d)
  qed
qed

lemma sample_ok:
  assumes "0 \<le> k" "k \<le> int (length xs)"
  shows "succeeds (sample xs k) s (\<lambda>ys s'. db s' = db s \<and> int (length ys) = k)"
proof -
  have "nat k \<le> length xs" using assms by simp
  from draw_ok [OF this, of s] show ?thesis
    using assms by (auto simp: sample_def elim!: succeeds_mono)
qed

lemma now_ok: "succeeds now s (\<lambda>t s'. db s' = db s)"
  by (simp add: succeeds_def now_def)

lemma create_document_ok:
  assumes "db s = Some st" "fst ref st = Collection ds"
  shows "succeeds (create_document ref data) s
           (\<lambda>i s'. \<exists>d. db s' = Some (snd ref (Collection (ds @ [d])) st) \<and> body d = data \<and>
                        str_oid (doc_id d) = i)"
  using assms
  by (auto simp: create_document_def insert_one_def succeeds_def bind_def now_def db_get_def
      new_oid_def db_put_def ret_def
      intro!: exI [of _ "\<lparr>doc_id = oids s 0, body = data,
                          created_at = bson_datetime (clock s 0),
                          updated_at = bson_datetime (clock s 0)\<rparr>"])

section \<open>The seeder at the threshold\<close>

lemma count_documents_eq:
  assumes "db s = Some st" "fst ref st = Collection ds"
  shows "count_documents ref s = (Inr (int (length ds)), s)"
  using assms by (simp add: count_documents_def db_get_def bind_def ret_def)

lemma ensure_bootstrap_short_circuit:
  assumes "db s = Some st" "character st = Collection cs" "post st = Collection ps"
    "story st = Collection ss" "5 \<le> length cs"
  shows "ensure_bootstrap character_count posts_per_character s =
           (Inr \<lparr>characters = int (length cs), posts = int (length ps),
                 stories = int (length ss)\<rparr>, s)"
proof -
  have c: "count_documents character_ref s = (Inr (int (length cs)), s)"
    by (rule count_documents_eq [OF assms(1)]) (simp add: character_ref_def assms)
  have p: "count_documents post_ref s = (Inr (int (length ps)), s)"
    by (rule count_documents_eq [OF assms(1)]) (simp add: post_ref_def assms)
  have t: "count_documents story_ref s = (Inr (int (length ss)), s)"
    by (rule count_documents_eq [OF assms(1)]) (simp add: story_ref_def assms)
  show ?thesis
    using assms(1,5) by (simp add: ensure_bootstrap_def bind_def c p t ret_def)
qed

text \<open>
  C1. In a store that holds at least five characters, the seeder creates nothing, whatever
  its two arguments: it returns the numbers of characters, posts and stories the store
  holds, and leaves the whole state as it was.
\<close>

theorem seeded_store_is_left_alone:
  assumes "db s = Some st"
    and "character st = Collection cs" and "post st = Collection ps"
    and "story st = Collection ss"
    and "5 \<le> length cs"
  shows "ensure_bootstrap character_count posts_per_character s =
           (Inr \<lparr>characters = int (length cs), posts = int (length ps),
                 stories = int (length ss)\<rparr>, s)"
  using assms by (rule ensure_bootstrap_short_circuit)

theorem seeded_store_is_left_alone_witness:
  "db seeded = Some seeded_store \<and>
   ensure_bootstrap 24 2 seeded = (Inr \<lparr>characters = 5, posts = 2, stories = 0\<rparr>, seeded)"
  using seeded_store_is_left_alone [of seeded seeded_store personas snaps "[]" 24 2]
  by (simp add: seeded_def seeded_store_def unset_def personas_def snaps_def)

text \<open>
  C6 (as stated, refuted). The claim has the short-circuit return three zeros. In the
  example store of five characters and two posts the seeder returns 5, 2 and 0.
\<close>

theorem short_circuit_counts_are_not_zero:
  "fst (ensure_bootstrap 24 2 seeded) = Inr \<lparr>characters = 5, posts = 2, stories = 0\<rparr> \<and>
   fst (ensure_bootstrap 24 2 seeded) \<noteq> Inr \<lparr>characters = 0, posts = 0, stories = 0\<rparr>"
  using ensure_bootstrap_short_circuit [of seeded seeded_store personas snaps "[]" 24 2]
  by (simp add: seeded_def seeded_store_def unset_def personas_def snaps_def)

text \<open>
  C6 (amended). Whenever the seeder short-circuits at the threshold check, the counts it
  returns are the numbers of characters, posts and stories that the store holds; the
  characters count is therefore at least 5.
\<close>

theorem short_circuit_returns_totals:
  assumes "db s = Some st"
    and "character st = Collection cs" and "post st = Collection ps"
    and "story st = Collection ss"
    and "5 \<le> length cs"
  shows "\<exists>r. ensure_bootstrap character_count posts_per_character s = (Inr r, s) \<and>
           characters r = int (length cs) \<and> posts r = int (length ps) \<and>
           stories r = int (length ss) \<and> 5 \<le> characters r"
  using assms(5) by (simp add: ensure_bootstrap_short_circuit [OF assms])

theorem short_circuit_returns_totals_witness:
  "db seeded = Some seeded_store \<and> 5 \<le> length personas \<and>
   (\<exists>r. ensure_bootstrap 24 2 seeded = (Inr r, seeded) \<and>
      characters r = 5 \<and> posts r = 2 \<and> stories r = 0 \<and> 5 \<le> characters r)"
  using short_circuit_returns_totals [of seeded seeded_store personas snaps "[]" 24 2]
  by (simp add: seeded_def seeded_store_def unset_def personas_def snaps_def)

section \<open>The seeder below the threshold\<close>

lemma split_first_word:
  "w \<noteq> [] \<Longrightarrow> \<not> is_space (hd w) \<Longrightarrow> \<exists>v. split_first (w @ rest) = Inr v"
  by (cases w) (simp_all add: split_first_def)

lemma first_names_words: "list_all (\<lambda>w. w \<noteq> [] \<and> \<not> is_space (hd w)) first_names"
  by (simp add: first_names_def is_space_def)

lemma split_first_name:
  assumes "first \<in> set first_names"
  shows "\<exists>w. split_first (first @ rest) = Inr w"
proof -
  from first_names_words assms have "first \<noteq> [] \<and> \<not> is_space (hd first)"
    unfolding list_all_iff by blast
  then show ?thesis by (simp add: split_first_word)
qed

lemma new_Character_ok:
  "0 \<le> f \<Longrightarrow> 0 \<le> g \<Longrightarrow> \<exists>c. new_Character (Some u) (Some n) b a i (Some f) (Some g) = Inr c"
  by (simp add: new_Character_def validated_def required_def ge_def)

lemma seed_character_ok:
  assumes "db s = Some st" "character st = Collection cs"
  shows "succeeds seed_character s
           (\<lambda>_ s'. \<exists>d. db s' = Some (st\<lparr>character := Collection (cs @ [d])\<rparr>))"
  unfolding seed_character_def Let_def
  apply (rule succeeds_bind, rule choice_ok, simp add: first_names_def, elim conjE)
  apply (rule succeeds_bind, rule choice_db, simp add: last_names_def)
  apply (rule succeeds_bind, rule lift_some_ok, erule split_first_name)
  apply (rule succeeds_bind, rule randint_ok, simp, elim conjE)
  apply (rule succeeds_bind, rule choice_db, simp)
  apply (rule succeeds_bind, rule randint_ok, simp, elim conjE)
  apply (rule succeeds_bind, rule randint_ok, simp, elim conjE)
  apply (rule succeeds_bind, rule sample_ok, simp, simp add: interests_pool_def, elim conjE)
  apply (rule succeeds_bind, rule randint_ok, simp, elim conjE)
  apply (rule succeeds_bind, rule randint_ok, simp, elim conjE)
  apply (rule succeeds_bind, rule lift_some_ok, rule new_Character_ok, simp, simp)
  apply (rule succeeds_bind, rule create_document_ok [where st = st and ds = cs])
    apply (simp add: assms)
   apply (simp add: character_ref_def assms)
  apply (rule succeeds_ret)
  apply (auto simp: character_ref_def)
  done

lemma seed_characters_ok:
  assumes "db s = Some st" "character st = Collection cs"
  shows "succeeds (seed_characters n k) s
           (\<lambda>r s'. r = k + int n \<and>
              (\<exists>ds. length ds = n \<and> db s' = Some (st\<lparr>character := Collection (cs @ ds)\<rparr>)))"
  using assms
proof (induction n arbitrary: s st cs k)
  case 0
  then have "st\<lparr>character := Collection cs\<rparr> = st" by simp
  with 0 show ?case by (simp add: succeeds_ret)
next
  case (Suc n)
  show ?case
    unfolding seed_characters.simps
  proof (rule succeeds_bind [OF seed_character_ok [OF Suc.prems]])
    fix u :: unit and s' :: sys
    assume "\<exists>d. db s' = Some (st\<lparr>character := Collection (cs @ [d])\<rparr>)"
    then obtain d where d: "db s' = Some (st\<lparr>character := Collection (cs @ [d])\<rparr>)" ..
    have c: "character (st\<lparr>character := Collection (cs @ [d])\<rparr>) = Collection (cs @ [d])"
      by simp
    show "succeeds (seed_characters n (k + 1)) s'
            (\<lambda>r s'. r = k + int (Suc n) \<and>
               (\<exists>ds. length ds = Suc n \<and> db s' = Some (st\<lparr>character := Collection (cs @ ds)\<rparr>)))"
    proof (rule succeeds_mono [OF Suc.IH [OF d c]])
      fix r and s'' :: sys
      assume "r = k + 1 + int n \<and>
        (\<exists>ds. length ds = n \<and>
           db s'' = Some (st\<lparr>character := Collection (cs @ [d]), character := Collection ((cs @ [d]) @ ds)\<rparr>))"
      then obtain ds where r: "r = k + 1 + int n" and l: "length ds = n"
        and e: "db s'' = Some (st\<lparr>character := Collection (cs @ d # ds)\<rparr>)"
        by auto
      from l have "length (d # ds) = Suc n" by simp
      with r e show "r = k + int (Suc n) \<and>
        (\<exists>ds. length ds = Suc n \<and> db s'' = Some (st\<lparr>character := Collection (cs @ ds)\<rparr>))"
        by (intro conjI exI [of _ "d # ds"]) simp_all
    qed
  qed
qed

lemma new_Post_ok:
  "0 \<le> l \<Longrightarrow> 0 \<le> k \<Longrightarrow>
   new_Post (Some ''character'') (Some a) (Some ''image'') (Some m) cap (Some h) (Some l) (Some k) =
   Inr \<lparr>Post.author_type = ''character'', Post.author_id = a, Post.type = ''image'',
        Post.media_url = m, Post.caption = cap, Post.hashtags = h, Post.like_count = l,
        Post.comment_count = k\<rparr>"
  by (simp add: new_Post_def validated_def required_def ge_def literal_def default_def)

lemma new_Story_ok:
  "new_Story (Some ''character'') (Some a) (Some m) overlay e =
   Inr \<lparr>Story.author_type = ''character'', Story.author_id = a, Story.media_url = m,
        Story.text_overlay = overlay, Story.expires_at = e\<rparr>"
  by (simp add: new_Story_def validated_def required_def literal_def default_def)

lemma seed_post_ok:
  assumes "db s = Some st" "post st = Collection ps"
  shows "succeeds (seed_post c) s
           (\<lambda>_ s'. \<exists>st' d. db s' = Some st' \<and> character st' = character st \<and>
              story st' = story st \<and> post st' = Collection (ps @ [d]) \<and> posted_by c d)"
  unfolding seed_post_def Let_def
  apply (rule succeeds_bind, rule randint_ok, simp, elim conjE)
  apply (rule succeeds_bind, rule choice_db, simp)
  apply (rule succeeds_bind, rule choice_db, simp add: interests_pool_def)
  apply (rule succeeds_bind, rule choice_db, simp add: interests_pool_def)
  apply (rule succeeds_bind, rule choice_db, simp add: interests_pool_def)
  apply (rule succeeds_bind, rule randint_ok, simp, elim conjE)
  apply (rule succeeds_bind, rule randint_ok, simp, elim conjE)
  apply (rule succeeds_bind, rule lift_ok, rule new_Post_ok, simp, simp, elim conjE)
  apply (rule succeeds_bind, rule create_document_ok [where st = st and ds = ps])
    apply (simp add: assms)
   apply (simp add: post_ref_def assms)
  apply (rule succeeds_ret)
  apply (auto simp: post_ref_def posted_by_def)
  done

lemma seed_story_ok:
  assumes "db s = Some st" "story st = Collection ss"
  shows "succeeds (seed_story c) s
           (\<lambda>_ s'. \<exists>st' d. db s' = Some st' \<and> character st' = character st \<and>
              post st' = post st \<and> story st' = Collection (ss @ [d]) \<and> told_by c d)"
  unfolding seed_story_def Let_def
  apply (rule succeeds_bind, rule choice_db, simp)
  apply (rule succeeds_bind, rule now_ok)
  apply (rule succeeds_bind, rule lift_ok, rule new_Story_ok, elim conjE)
  apply (rule succeeds_bind, rule create_document_ok [where st = st and ds = ss])
    apply (simp add: assms)
   apply (simp add: story_ref_def assms)
  apply (rule succeeds_ret)
  apply (auto simp: story_ref_def told_by_def)
  done

lemma seed_posts_ok:
  assumes "db s = Some st" "post st = Collection ps"
  shows "succeeds (seed_posts n c k) s
           (\<lambda>r s'. \<exists>st' ds. db s' = Some st' \<and> character st' = character st \<and>
              story st' = story st \<and> post st' = Collection (ps @ ds) \<and>
              length ds = n \<and> r = k + int n \<and> list_all (posted_by c) ds)"
  using assms
proof (induction n arbitrary: s st ps k)
  case 0
  then show ?case by (simp add: succeeds_ret)
next
  case (Suc n)
  show ?case
    unfolding seed_posts.simps
  proof (rule succeeds_bind [OF seed_post_ok [OF Suc.prems]])
    fix u :: unit and s1 :: sys
    assume "\<exists>st' d. db s1 = Some st' \<and> character st' = character st \<and>
              story st' = story st \<and> post st' = Collection (ps @ [d]) \<and> posted_by c d"
    then obtain st1 d where 1: "db s1 = Some st1" "post st1 = Collection (ps @ [d])"
      and f: "character st1 = character st" "story st1 = story st" and d: "posted_by c d"
      by blast
    show "succeeds (seed_posts n c (k + 1)) s1
            (\<lambda>r s'. \<exists>st' ds. db s' = Some st' \<and> character st' = character st \<and>
               story st' = story st \<and> post st' = Collection (ps @ ds) \<and>
               length ds = Suc n \<and> r = k + int (Suc n) \<and> list_all (posted_by c) ds)"
    proof (rule succeeds_mono [OF Suc.IH [OF 1]])
      fix r and s2 :: sys
      assume "\<exists>st' ds. db s2 = Some st' \<and> character st' = character st1 \<and>
                story st' = story st1 \<and> post st' = Collection ((ps @ [d]) @ ds) \<and>
                length ds = n \<and> r = k + 1 + int n \<and> list_all (posted_by c) ds"
      then obtain st2 ds where 2: "db s2 = Some st2" "character st2 = character st1"
        "story st2 = story st1" "post st2 = Collection ((ps @ [d]) @ ds)" "length ds = n"
        "r = k + 1 + int n" "list_all (posted_by c) ds"
        by blast
      show "\<exists>st' ds. db s2 = Some st' \<and> character st' = character st \<and>
               story st' = story st \<and> post st' = Collection (ps @ ds) \<and>
               length ds = Suc n \<and> r = k + int (Suc n) \<and> list_all (posted_by c) ds"
        using 2 f d by (intro exI [of _ st2] exI [of _ "d # ds"]) simp
    qed
  qed
qed


lemma seed_content_ok:
  assumes "db s = Some st" "post st = Collection ps" "story st = Collection ss"
  shows "succeeds (seed_content cs ppc kp ks) s
           (\<lambda>r s'. \<exists>st' pd sd. db s' = Some st' \<and> character st' = character st \<and>
              post st' = Collection (ps @ pd) \<and> story st' = Collection (ss @ sd) \<and>
              length pd = nat ppc * length cs \<and> length sd \<le> length cs \<and>
              fst r = kp + int (length pd) \<and> snd r = ks + int (length sd) \<and>
              (\<forall>p\<in>set pd. \<exists>c\<in>set cs. posted_by c p) \<and>
              (\<forall>t\<in>set sd. \<exists>c\<in>set cs. told_by c t))"
  using assms
proof (induction cs arbitrary: s st ps ss kp ks)
  case Nil
  then show ?case by (simp add: succeeds_ret)
next
  case (Cons c cs)
  let ?Q = "\<lambda>r s'. \<exists>st' pd sd. db s' = Some st' \<and> character st' = character st \<and>
              post st' = Collection (ps @ pd) \<and> story st' = Collection (ss @ sd) \<and>
              length pd = nat ppc * length (c # cs) \<and> length sd \<le> length (c # cs) \<and>
              fst r = kp + int (length pd) \<and> snd r = ks + int (length sd) \<and>
              (\<forall>p\<in>set pd. \<exists>c\<in>set (c # cs). posted_by c p) \<and>
              (\<forall>t\<in>set sd. \<exists>c\<in>set (c # cs). told_by c t)"
  show ?case
    unfolding seed_content.simps
  proof (rule succeeds_bind [OF seed_posts_ok [OF Cons.prems(1,2)]])
    fix kp1 and s1 :: sys
    assume "\<exists>st' ds. db s1 = Some st' \<and> character st' = character st \<and>
              story st' = story st \<and> post st' = Collection (ps @ ds) \<and>
              length ds = nat ppc \<and> kp1 = kp + int (nat ppc) \<and> list_all (posted_by c) ds"
    then obtain st1 pd1 where 1: "db s1 = Some st1" "post st1 = Collection (ps @ pd1)"
      and t1: "story st1 = Collection ss" and c1: "character st1 = character st"
      and l1: "length pd1 = nat ppc" and k1: "kp1 = kp + int (nat ppc)"
      and a1: "\<forall>p\<in>set pd1. posted_by c p"
      using Cons.prems(3) by (auto simp: list_all_iff)
    show "succeeds (bind (randint 0 1) (\<lambda>coin.
             if coin = 1
             then bind (seed_story c) (\<lambda>_. seed_content cs ppc kp1 (ks + 1))
             else seed_content cs ppc kp1 ks)) s1 ?Q"
    proof (rule succeeds_bind [OF randint_ok])
      show "(0::int) \<le> 1" by simp
    next
      fix coin :: int and s2 :: sys
      assume "db s2 = db s1 \<and> 0 \<le> coin \<and> coin \<le> 1"
      then have 2: "db s2 = Some st1" using 1 by simp
      show "succeeds (if coin = 1
               then bind (seed_story c) (\<lambda>_. seed_content cs ppc kp1 (ks + 1))
               else seed_content cs ppc kp1 ks) s2 ?Q"
      proof (cases "coin = 1")
        case False
        have "succeeds (seed_content cs ppc kp1 ks) s2 ?Q"
        proof (rule succeeds_mono [OF Cons.IH [OF 2 1(2) t1]])
          fix r and s3 :: sys
          assume "\<exists>st' pd sd. db s3 = Some st' \<and> character st' = character st1 \<and>
              post st' = Collection ((ps @ pd1) @ pd) \<and> story st' = Collection (ss @ sd) \<and>
              length pd = nat ppc * length cs \<and> length sd \<le> length cs \<and>
              fst r = kp1 + int (length pd) \<and> snd r = ks + int (length sd) \<and>
              (\<forall>p\<in>set pd. \<exists>c\<in>set cs. posted_by c p) \<and>
              (\<forall>t\<in>set sd. \<exists>c\<in>set cs. told_by c t)"
          then obtain st3 pd sd where 3: "db s3 = Some st3" "character st3 = character st1"
            "post st3 = Collection ((ps @ pd1) @ pd)" "story st3 = Collection (ss @ sd)"
            "length pd = nat ppc * length cs" "length sd \<le> length cs"
            "fst r = kp1 + int (length pd)" "snd r = ks + int (length sd)"
            "\<forall>p\<in>set pd. \<exists>c\<in>set cs. posted_by c p" "\<forall>t\<in>set sd. \<exists>c\<in>set cs. told_by c t"
            by blast
          show "?Q r s3"
            using 3 c1 l1 k1 a1
            by (intro exI [of _ st3] exI [of _ "pd1 @ pd"] exI [of _ sd]) auto
        qed
        with False show ?thesis by simp
      next
        case True
        have "succeeds (bind (seed_story c) (\<lambda>_. seed_content cs ppc kp1 (ks + 1))) s2 ?Q"
        proof (rule succeeds_bind [OF seed_story_ok [OF 2 t1]])
          fix u :: unit and s3 :: sys
          assume "\<exists>st' d. db s3 = Some st' \<and> character st' = character st1 \<and>
                    post st' = post st1 \<and> story st' = Collection (ss @ [d]) \<and> told_by c d"
          then obtain st3 t where 3: "db s3 = Some st3" "post st3 = Collection (ps @ pd1)"
            "story st3 = Collection (ss @ [t])" and c3: "character st3 = character st1"
            and b3: "told_by c t"
            using 1 by auto
          show "succeeds (seed_content cs ppc kp1 (ks + 1)) s3 ?Q"
          proof (rule succeeds_mono [OF Cons.IH [OF 3]])
            fix r and s4 :: sys
            assume "\<exists>st' pd sd. db s4 = Some st' \<and> character st' = character st3 \<and>
                post st' = Collection ((ps @ pd1) @ pd) \<and>
                story st' = Collection ((ss @ [t]) @ sd) \<and>
                length pd = nat ppc * length cs \<and> length sd \<le> length cs \<and>
                fst r = kp1 + int (length pd) \<and> snd r = ks + 1 + int (length sd) \<and>
                (\<forall>p\<in>set pd. \<exists>c\<in>set cs. posted_by c p) \<and>
                (\<forall>t\<in>set sd. \<exists>c\<in>set cs. told_by c t)"
            then obtain st4 pd sd where 4: "db s4 = Some st4" "character st4 = character st3"
              "post st4 = Collection ((ps @ pd1) @ pd)"
              "story st4 = Collection ((ss @ [t]) @ sd)"
              "length pd = nat ppc * length cs" "length sd \<le> length cs"
              "fst r = kp1 + int (length pd)" "snd r = ks + 1 + int (length sd)"
              "\<forall>p\<in>set pd. \<exists>c\<in>set cs. posted_by c p" "\<forall>t\<in>set sd. \<exists>c\<in>set cs. told_by c t"
              by blast
            show "?Q r s4"
              using 4 c1 c3 l1 k1 a1 b3
              by (intro exI [of _ st4] exI [of _ "pd1 @ pd"] exI [of _ "t # sd"]) auto
          qed
        qed
        with True show ?thesis by simp
      qed
    qed
  qed
qed


lemma count_documents_ok:
  assumes "db s = Some st" "fst ref st = Collection ds"
  shows "succeeds (count_documents ref) s (\<lambda>r s'. s' = s \<and> r = int (length ds))"
  using assms by (simp add: succeeds_def count_documents_eq)

lemma find_docs_ok:
  assumes "db s = Some st" "fst ref st = Collection ds"
  shows "succeeds (find_docs ref) s (\<lambda>r s'. s' = s \<and> r = ds)"
  using assms by (simp add: succeeds_def find_docs_def db_get_def)

lemma ensure_bootstrap_seeds:
  assumes "db s = Some st" "character st = Collection cs" "post st = Collection ps"
    "story st = Collection ss" "length cs < 5"
  shows "succeeds (ensure_bootstrap n ppc) s
     (\<lambda>r s'. \<exists>st' cd pd sd. db s' = Some st' \<and> character st' = Collection (cs @ cd) \<and>
        post st' = Collection (ps @ pd) \<and> story st' = Collection (ss @ sd) \<and>
        length cd = nat n \<and> length pd = nat ppc * length (limit n (cs @ cd)) \<and>
        length sd \<le> length (limit n (cs @ cd)) \<and>
        characters r = int (length cd) \<and> posts r = int (length pd) \<and>
        stories r = int (length sd) \<and>
        (\<forall>p\<in>set pd. \<exists>c\<in>set (limit n (cs @ cd)). posted_by c p) \<and>
        (\<forall>t\<in>set sd. \<exists>c\<in>set (limit n (cs @ cd)). told_by c t))"
    (is "succeeds _ _ ?Q")
proof -
  let ?body = "bind (count_documents character_ref) (\<lambda>existing.
       if existing \<ge> 5
       then bind (count_documents post_ref) (\<lambda>post_total.
            bind (count_documents story_ref) (\<lambda>story_total.
            ret \<lparr>characters = existing, posts = post_total, stories = story_total\<rparr>))
       else bind (seed_characters (nat n) 0) (\<lambda>created_chars.
            bind (find_docs character_ref) (\<lambda>found.
            bind (seed_content (limit n found) ppc 0 0)
              (\<lambda>(created_posts, created_stories).
            ret \<lparr>characters = created_chars, posts = created_posts,
                 stories = created_stories\<rparr>))))"
  have unfold: "ensure_bootstrap n ppc s = ?body s"
    using assms(1) by (simp add: ensure_bootstrap_def)
  have "succeeds ?body s ?Q"
  proof (rule succeeds_bind [OF count_documents_ok [OF assms(1), of character_ref cs]])
    show "fst character_ref st = Collection cs"
      by (simp add: character_ref_def assms)
  next
    fix existing and s0 :: sys
    assume "s0 = s \<and> existing = int (length cs)"
    then have s0: "s0 = s" and small: "\<not> existing \<ge> 5" using assms(5) by auto
    have "succeeds (bind (seed_characters (nat n) 0) (\<lambda>created_chars.
            bind (find_docs character_ref) (\<lambda>found.
            bind (seed_content (limit n found) ppc 0 0)
              (\<lambda>(created_posts, created_stories).
            ret \<lparr>characters = created_chars, posts = created_posts,
                 stories = created_stories\<rparr>)))) s ?Q"
    proof (rule succeeds_bind [OF seed_characters_ok [OF assms(1,2)]])
      fix created_chars and s1 :: sys
      assume "created_chars = 0 + int (nat n) \<and>
        (\<exists>ds. length ds = nat n \<and> db s1 = Some (st\<lparr>character := Collection (cs @ ds)\<rparr>))"
      then obtain cd where cc: "created_chars = int (nat n)" and lc: "length cd = nat n"
        and 1: "db s1 = Some (st\<lparr>character := Collection (cs @ cd)\<rparr>)"
        by auto
      let ?st1 = "st\<lparr>character := Collection (cs @ cd)\<rparr>"
      show "succeeds (bind (find_docs character_ref) (\<lambda>found.
            bind (seed_content (limit n found) ppc 0 0)
              (\<lambda>(created_posts, created_stories).
            ret \<lparr>characters = created_chars, posts = created_posts,
                 stories = created_stories\<rparr>))) s1 ?Q"
      proof (rule succeeds_bind [OF find_docs_ok [OF 1, of character_ref "cs @ cd"]])
        show "fst character_ref ?st1 = Collection (cs @ cd)"
          by (simp add: character_ref_def)
      next
        fix found and s2 :: sys
        assume "s2 = s1 \<and> found = cs @ cd"
        then have s2: "s2 = s1" and found: "found = cs @ cd" by auto
        have p1: "post ?st1 = Collection ps" and t1: "story ?st1 = Collection ss"
          using assms by simp_all
        show "succeeds (bind (seed_content (limit n found) ppc 0 0)
              (\<lambda>(created_posts, created_stories).
            ret \<lparr>characters = created_chars, posts = created_posts,
                 stories = created_stories\<rparr>)) s2 ?Q"
          unfolding s2 found
        proof (rule succeeds_bind [OF seed_content_ok [OF 1 p1 t1]])
          fix r and s3 :: sys
          assume "\<exists>st' pd sd. db s3 = Some st' \<and> character st' = character ?st1 \<and>
              post st' = Collection (ps @ pd) \<and> story st' = Collection (ss @ sd) \<and>
              length pd = nat ppc * length (limit n (cs @ cd)) \<and>
              length sd \<le> length (limit n (cs @ cd)) \<and>
              fst r = 0 + int (length pd) \<and> snd r = 0 + int (length sd) \<and>
              (\<forall>p\<in>set pd. \<exists>c\<in>set (limit n (cs @ cd)). posted_by c p) \<and>
              (\<forall>t\<in>set sd. \<exists>c\<in>set (limit n (cs @ cd)). told_by c t)"
          then obtain st3 pd sd where 3: "db s3 = Some st3" "character st3 = character ?st1"
              "post st3 = Collection (ps @ pd)" "story st3 = Collection (ss @ sd)"
              "length pd = nat ppc * length (limit n (cs @ cd))"
              "length sd \<le> length (limit n (cs @ cd))"
              "fst r = int (length pd)" "snd r = int (length sd)"
              "\<forall>p\<in>set pd. \<exists>c\<in>set (limit n (cs @ cd)). posted_by c p"
              "\<forall>t\<in>set sd. \<exists>c\<in>set (limit n (cs @ cd)). told_by c t"
            by auto
          have "?Q \<lparr>characters = created_chars, posts = fst r, stories = snd r\<rparr> s3"
            using 3 cc lc
            by (intro exI [of _ st3] exI [of _ cd] exI [of _ pd] exI [of _ sd]) simp
          then show "succeeds (case r of (created_posts, created_stories) \<Rightarrow>
              ret \<lparr>characters = created_chars, posts = created_posts,
                   stories = created_stories\<rparr>) s3 ?Q"
            by (cases r) (simp add: succeeds_def ret_def)
        qed
      qed
    qed
    with small s0 show "succeeds (if existing \<ge> 5
       then bind (count_documents post_ref) (\<lambda>post_total.
            bind (count_documents story_ref) (\<lambda>story_total.
            ret \<lparr>characters = existing, posts = post_total, stories = story_total\<rparr>))
       else bind (seed_characters (nat n) 0) (\<lambda>created_chars.
            bind (find_docs character_ref) (\<lambda>found.
            bind (seed_content (limit n found) ppc 0 0)
              (\<lambda>(created_posts, created_stories).
            ret \<lparr>characters = created_chars, posts = created_posts,
                 stories = created_stories\<rparr>)))) s0 ?Q"
      by simp
  qed
  then show ?thesis
    by (simp add: succeeds_def unfold)
qed

lemma limit_all: "length xs = nat n \<Longrightarrow> limit n xs = xs"
  by (simp add: limit_def)


text \<open>
  C2. From an empty store, the seeder called with \<open>character_count = N\<close> and
  \<open>posts_per_character = P\<close> (two numbers of records, so neither is negative) returns, and
  leaves \<open>N\<close> characters, \<open>P * N\<close> posts and at most \<open>N\<close> stories in the store; the counts
  it returns are \<open>N\<close>, \<open>P * N\<close> and the number of stories.
\<close>

theorem seeding_an_empty_store:
  assumes "db s = Some st"
    and "character st = Collection []" and "post st = Collection []"
    and "story st = Collection []"
    and "0 \<le> N" and "0 \<le> P"
  shows "\<exists>r s' st' cs ps ss.
           ensure_bootstrap N P s = (Inr r, s') \<and> db s' = Some st' \<and>
           character st' = Collection cs \<and> post st' = Collection ps \<and>
           story st' = Collection ss \<and>
           int (length cs) = N \<and> int (length ps) = P * N \<and> int (length ss) \<le> N \<and>
           characters r = N \<and> posts r = P * N \<and> stories r = int (length ss)"
proof -
  have "length ([] :: Character document list) < 5" by simp
  from ensure_bootstrap_seeds [OF assms(1-4) this, of N P]
  obtain r s' st' cd pd sd where run: "ensure_bootstrap N P s = (Inr r, s')"
    and st': "db s' = Some st'" "character st' = Collection cd" "post st' = Collection pd"
      "story st' = Collection sd"
    and cd: "length cd = nat N"
    and pd: "length pd = nat P * length (limit N cd)"
    and sd: "length sd \<le> length (limit N cd)"
    and r: "characters r = int (length cd)" "posts r = int (length pd)"
      "stories r = int (length sd)"
    by (auto simp: succeeds_iff)
  have all: "limit N cd = cd" using cd by (rule limit_all)
  have n: "int (length cd) = N" using cd assms(5) by simp
  have "int (length pd) = int (nat P) * int (length cd)" using pd all by simp
  then have p: "int (length pd) = P * N" using n assms(6) by simp
  have t: "int (length sd) \<le> N" using sd all n by simp
  show ?thesis
    using run st' n p t r by (intro exI [of _ r] exI [of _ s'] exI [of _ st']
        exI [of _ cd] exI [of _ pd] exI [of _ sd]) simp
qed

theorem seeding_an_empty_store_witness:
  "db fresh = Some empty_store \<and> character empty_store = Collection [] \<and>
   post empty_store = Collection [] \<and> story empty_store = Collection [] \<and>
   (\<exists>r s' st' cs ps ss.
      ensure_bootstrap 3 1 fresh = (Inr r, s') \<and> db s' = Some st' \<and>
      character st' = Collection cs \<and> post st' = Collection ps \<and>
      story st' = Collection ss \<and>
      length cs = 3 \<and> length ps = 3 \<and> length ss \<le> 3 \<and>
      characters r = 3 \<and> posts r = 3 \<and> stories r = int (length ss))"
  using seeding_an_empty_store [of fresh empty_store 3 1]
  by (simp add: fresh_def empty_store_def)

section \<open>Hydration and encoding\<close>

lemma char_map_of_snoc:
  "char_map_of (cs @ [c]) = (char_map_of cs)(str_oid (doc_id c) \<mapsto> c)"
  by (simp add: char_map_of_def)

lemma char_map_of_miss:
  "(\<forall>c\<in>set cs. str_oid (doc_id c) \<noteq> k) \<Longrightarrow> char_map_of cs k = None"
proof (induction cs rule: rev_induct)
  case Nil
  then show ?case by (simp add: char_map_of_def)
next
  case (snoc c cs)
  then show ?case by (auto simp: char_map_of_snoc)
qed

lemma char_map_of_hit:
  "distinct (map doc_id cs) \<Longrightarrow> c \<in> set cs \<Longrightarrow> char_map_of cs (str_oid (doc_id c)) = Some c"
proof (induction cs rule: rev_induct)
  case Nil
  then show ?case by simp
next
  case (snoc x cs)
  show ?case
  proof (cases "c = x")
    case True
    then show ?thesis by (simp add: char_map_of_snoc)
  next
    case False
    with snoc.prems have in_cs: "c \<in> set cs" by simp
    from snoc.prems have "doc_id x \<notin> doc_id ` set cs" by simp
    with in_cs have "doc_id c \<noteq> doc_id x" by (metis imageI)
    with snoc in_cs show ?thesis by (simp add: char_map_of_snoc str_oid_def)
  qed
qed


lemma doc_hydrate: "doc (hydrate cs k d) = d"
  by (simp add: hydrate_def split: option.splits)

lemma hydrate_hit:
  "distinct (map doc_id cs) \<Longrightarrow> c \<in> set cs \<Longrightarrow>
   author (hydrate cs (str_oid (doc_id c)) d) = Some (summary c)"
  by (simp add: hydrate_def char_map_of_hit)

lemma hydrate_miss:
  "(\<forall>c\<in>set cs. str_oid (doc_id c) \<noteq> k) \<Longrightarrow> author (hydrate cs k d) = None"
  by (simp add: hydrate_def char_map_of_miss)


lemma feed_items_eq:
  assumes "db s = Some st" "post st = Collection ps" "character st = Collection cs"
  shows "feed_items l s =
           (Inr (map (\<lambda>p. hydrate cs (Post.author_id (body p)) p)
                  (limit l (sort_created_desc ps))), s)"
  using assms
  by (simp add: feed_items_def bind_def find_docs_def find_where_def db_get_def
      post_ref_def character_ref_def ret_def summary_def hydrate_def cong: option.case_cong)

lemma story_items_eq:
  assumes "db s = Some st" "story st = Collection ss" "character st = Collection cs"
  shows "story_items l s =
           (Inr (map (\<lambda>t. hydrate cs (Story.author_id (body t)) t)
                  (limit l (sort_created_desc ss))), s)"
  using assms
  by (simp add: story_items_def bind_def find_docs_def db_get_def
      story_ref_def character_ref_def ret_def summary_def hydrate_def cong: option.case_cong)

text \<open>
  The items that the two handlers build are hydrated as they should be: with the
  \<open>author\<close> of the character whose identifier is the \<open>author_id\<close>, and with none when no
  character has it (the identifiers of the characters being distinct).
\<close>

lemma built_items_are_hydrated:
  assumes "db s = Some st"
    and "character st = Collection cs" and "post st = Collection ps"
    and "story st = Collection ss"
    and "distinct (map doc_id cs)"
  shows "(\<exists>items. feed_items l s = (Inr items, s) \<and>
            (\<forall>it\<in>set items.
               (\<forall>c\<in>set cs. Post.author_id (body (doc it)) = str_oid (doc_id c) \<longrightarrow>
                  author it = Some (summary c)) \<and>
               ((\<forall>c\<in>set cs. Post.author_id (body (doc it)) \<noteq> str_oid (doc_id c)) \<longrightarrow>
                  author it = None))) \<and>
         (\<exists>items. story_items l s = (Inr items, s) \<and>
            (\<forall>it\<in>set items.
               (\<forall>c\<in>set cs. Story.author_id (body (doc it)) = str_oid (doc_id c) \<longrightarrow>
                  author it = Some (summary c)) \<and>
               ((\<forall>c\<in>set cs. Story.author_id (body (doc it)) \<noteq> str_oid (doc_id c)) \<longrightarrow>
                  author it = None)))"
proof -
  have hit: "author (hydrate cs k d) = Some (summary c)"
    if "c \<in> set cs" "k = str_oid (doc_id c)" for c k and d :: "'m document"
    using that hydrate_hit [OF assms(5)] by simp
  have miss: "author (hydrate cs k d) = None"
    if "\<forall>c\<in>set cs. k \<noteq> str_oid (doc_id c)" for k and d :: "'m document"
    using that by (intro hydrate_miss) auto
  show ?thesis
    unfolding feed_items_eq [OF assms(1,3,2)] story_items_eq [OF assms(1,4,2)]
    by (auto simp: doc_hydrate hit miss)
qed

text \<open>The encoder encodes the empty list and nothing else.\<close>

lemma encode_list_item: "encode_list encode_item xs = (if xs = [] then Inr [] else Inl unencodable)"
  by (cases xs) (simp_all add: encode_item_def encode_document_def)

lemma encode_list_document:
  "encode_list encode_document xs = (if xs = [] then Inr [] else Inl unencodable)"
  by (cases xs) (simp_all add: encode_document_def)

lemma limit_sort_Nil: "limit l (sort_created_desc ds) = [] \<longleftrightarrow> ds = []"
proof -
  have "length (sort_created_desc ds) = length ds"
    by (simp add: sort_created_desc_def)
  then have "sort_created_desc ds = [] \<longleftrightarrow> ds = []"
    by (metis length_0_conv)
  then show ?thesis
    by (simp add: limit_def)
qed

lemma get_feed_eq:
  assumes "db s = Some st" "post st = Collection ps" "character st = Collection cs"
  shows "get_feed l s =
           (if ps = [] then (Inr [], s)
            else (Inl (HTTPException 500 (str_exn unencodable)), s))"
  by (simp add: get_feed_def try_except_def bind_def feed_items_eq [OF assms] lift_def
      encode_list_item limit_sort_Nil ret_def raise_def)

lemma get_stories_eq:
  assumes "db s = Some st" "story st = Collection ss" "character st = Collection cs"
  shows "get_stories l s = (if ss = [] then (Inr [], s) else (Inl unencodable, s))"
  by (simp add: get_stories_def bind_def story_items_eq [OF assms] lift_def
      encode_list_item limit_sort_Nil ret_def raise_def)



text \<open>
  C3 (the code at the failing input). In the example store the first post has the
  \<open>author_id\<close> of the first character. The feed handler builds its item with the
  \<open>author\<close> of that character, and then fails to encode it: the answer is the status 500
  with the text of the encoder's exception, and no item is returned. With a story in
  the store, the stories handler lets that exception escape: 500 with the framework's
  body.
\<close>

theorem feed_and_stories_return_no_hydrated_item:
  "http_response (fst (get_feed 25 seeded)) = (500, Inl (str_exn unencodable)) \<and>
   http_response (fst (get_stories 20 storied)) = (500, Inl ''Internal Server Error'')"
proof -
  have d: "db seeded = Some seeded_store"
    by (simp add: seeded_def)
  have c: "character seeded_store = Collection personas"
    and p: "post seeded_store = Collection snaps"
    by (simp_all add: seeded_store_def)
  let ?st = "seeded_store\<lparr>story :=
       Collection [tale ''00000000000000000000000c'' ''000000000000000000000001'']\<rparr>"
  have d': "db storied = Some ?st"
    by (simp add: storied_def)
  have c': "character ?st = Collection personas"
    and t': "story ?st = Collection [tale ''00000000000000000000000c'' ''000000000000000000000001'']"
    by (simp_all add: seeded_store_def)
  show ?thesis
    by (simp add: get_feed_eq [OF d p c] get_stories_eq [OF d' t' c'] snaps_def
        http_response_def unencodable_def)
qed




section \<open>Liking a post\<close>

lemma find_distinct:
  "distinct (map f xs) \<Longrightarrow> x \<in> set xs \<Longrightarrow> find (\<lambda>d. f d = f x) xs = Some x"
proof (induction xs)
  case Nil
  then show ?case by simp
next
  case (Cons a xs)
  show ?case
  proof (cases "a = x")
    case True
    then show ?thesis by simp
  next
    case False
    with Cons.prems have x: "x \<in> set xs" by simp
    from Cons.prems have "f a \<notin> f ` set xs" by simp
    with x have "f a \<noteq> f x" by (metis imageI)
    with Cons x show ?thesis by simp
  qed
qed

lemma update_first_distinct:
  "distinct (map f xs) \<Longrightarrow> x \<in> set xs \<Longrightarrow>
   update_first (\<lambda>d. f d = f x) u xs = map (\<lambda>d. if d = x then u x else d) xs"
proof (induction xs)
  case Nil
  then show ?case by simp
next
  case (Cons a xs)
  show ?case
  proof (cases "a = x")
    case True
    with Cons.prems have "x \<notin> set xs" by auto
    then have "map (\<lambda>d. if d = x then u x else d) xs = xs"
      by (induction xs) auto
    with True show ?thesis by simp
  next
    case False
    with Cons.prems have x: "x \<in> set xs" by simp
    from Cons.prems have "f a \<notin> f ` set xs" by simp
    with x have "f a \<noteq> f x" by (metis imageI)
    with Cons x False show ?thesis by simp
  qed
qed


text \<open>The string form of a generated identifier is read back as that identifier.\<close>

lemma fromhex_digits:
  "even (length s) \<Longrightarrow> list_all (\<lambda>c. is_hex c \<and> \<not> is_ascii_space c) s \<Longrightarrow> fromhex s = Some s"
  by (induction s rule: fromhex.induct) auto

lemma ObjectId_str_oid:
  assumes "length i = 24" and "list_all (\<lambda>c. c \<in> set ''0123456789abcdef'') i"
  shows "ObjectId (str_oid i) = Inr i"
proof -
  have "list_all (\<lambda>c. lower_char c = c \<and> is_hex c \<and> \<not> is_ascii_space c) ''0123456789abcdef''"
    by (simp add: lower_char_def is_hex_def is_ascii_space_def)
  then have keep: "\<forall>c\<in>set ''0123456789abcdef''.
      lower_char c = c \<and> is_hex c \<and> \<not> is_ascii_space c"
    by (simp only: list_all_iff)
  from assms(2) have "\<forall>c\<in>set i. c \<in> set ''0123456789abcdef''"
    by (simp only: list_all_iff)
  with keep have all: "\<forall>c\<in>set i. lower_char c = c \<and> is_hex c \<and> \<not> is_ascii_space c"
    by blast
  then have "lower i = i" and "list_all (\<lambda>c. is_hex c \<and> \<not> is_ascii_space c) i"
    by (auto simp: lower_def list_all_iff intro: map_idI)
  moreover have "even (length i)" using assms(1) by simp
  ultimately show ?thesis
    using assms(1) by (simp add: ObjectId_def str_oid_def fromhex_digits)
qed

text \<open>
  For a stored post (post identifiers being distinct) the handler increments
  \<open>like_count\<close> and sets \<open>updated_at\<close> in the store, leaves every other field and every
  other document as they were, reads the post back, and fails to encode it: the
  exception is caught by the handler's own \<^verbatim>\<open>except\<close>.
\<close>

lemma like_post_stored:
  assumes "db s = Some st" and "post st = Collection ps"
    and "distinct (map doc_id ps)" and "p \<in> set ps"
    and "ObjectId post_id' = Inr (doc_id p)"
  shows "like_post post_id' s =
           (Inl (HTTPException 400 (str_exn unencodable)),
            s\<lparr>clock := (\<lambda>i. clock s (Suc i)),
              db := Some (st\<lparr>post := Collection
                (map (\<lambda>d. if d = p
                           then p\<lparr>body := (body p)\<lparr>Post.like_count := Post.like_count (body p) + 1\<rparr>,
                                  updated_at := bson_datetime (clock s 0)\<rparr>
                           else d) ps)\<rparr>)\<rparr>)"
proof -
  let ?u = "\<lambda>d :: Post document.
              d\<lparr>body := (body d)\<lparr>Post.like_count := Post.like_count (body d) + 1\<rparr>,
                updated_at := bson_datetime (clock s 0)\<rparr>"
  let ?ps' = "map (\<lambda>d. if d = p then ?u p else d) ps"
  have f: "find (\<lambda>d. doc_id d = doc_id p) ps = Some p"
    using find_distinct [OF assms(3,4)] .
  have changed: "?u p \<noteq> p"
  proof
    assume "?u p = p"
    then have "body (?u p) = body p" by simp
    then have "Post.like_count (body (?u p)) = Post.like_count (body p)" by simp
    then show False by simp
  qed
  have upd: "update_first (\<lambda>d. doc_id d = doc_id p) ?u ps = ?ps'"
    using update_first_distinct [OF assms(3,4)] .
  have ids: "map doc_id ?ps' = map doc_id ps"
    by (induction ps) auto
  have mem: "?u p \<in> set ?ps'" using assms(4) by force
  have dist: "distinct (map doc_id ?ps')" using assms(3) by (simp only: ids)
  have "find (\<lambda>d. doc_id d = doc_id (?u p)) ?ps' = Some (?u p)"
    using dist mem by (rule find_distinct)
  then have f': "find (\<lambda>d. doc_id d = doc_id p) ?ps' = Some (?u p)" by simp
  show ?thesis
    using assms(1,2,5) f changed
    by (simp add: like_post_def try_except_def bind_def subscript_db_def lift_def now_def
        update_one_def db_get_def db_put_def find_one_def ret_def raise_def post_ref_def
        upd f' encode_option_def encode_document_def)
qed

text \<open>
  C4 (the code at the failing input). The example store holds the post
  \<open>00000000000000000000000a\<close> with a \<open>like_count\<close> of 10. The like handler leaves it in
  the store with a \<open>like_count\<close> of 11 and the new \<open>updated_at\<close>, the other post
  unchanged, and answers the status 400 with the text of the encoder's exception: it
  does not return the updated post.
\<close>

theorem like_of_a_stored_post_answers_400:
  "http_response (fst (like_post ''00000000000000000000000a'' seeded)) =
     (400, Inl (str_exn unencodable)) \<and>
   db (snd (like_post ''00000000000000000000000a'' seeded)) =
     Some (seeded_store\<lparr>post := Collection
       [(snap ''00000000000000000000000a'' ''000000000000000000000001'')
          \<lparr>body := (body (snap ''00000000000000000000000a'' ''000000000000000000000001''))
                     \<lparr>Post.like_count := 11\<rparr>,
           updated_at := 1700000000000000\<rparr>,
        snap ''00000000000000000000000b'' ''000000000000000000000009'']\<rparr>)"
proof -
  let ?p = "snap ''00000000000000000000000a'' ''000000000000000000000001''"
  have d: "db seeded = Some seeded_store"
    by (simp add: seeded_def)
  have c: "post seeded_store = Collection snaps"
    by (simp add: seeded_store_def)
  have i: "distinct (map doc_id snaps)"
    by (simp add: snaps_def snap_def)
  have m: "?p \<in> set snaps"
    by (simp add: snaps_def)
  have "ObjectId ''00000000000000000000000a'' = Inr ''00000000000000000000000a''"
    by (simp add: ObjectId_def is_hex_def is_ascii_space_def lower_def lower_char_def)
  then have o: "ObjectId ''00000000000000000000000a'' = Inr (doc_id ?p)"
    by (simp add: snap_def)
  note run = like_post_stored [OF d c i m o]
  show ?thesis
    unfolding run
    by (simp add: http_response_def snaps_def snap_def seeded_def unset_def
        bson_datetime_def)
qed

text \<open>
  For an identifier that no post has, the handler raises the 404 inside its \<^verbatim>\<open>try\<close>
  block, catches it itself and answers 400; the store is as before.
\<close>

lemma like_post_missing:
  assumes "db s = Some st" and "post st = Collection ps"
    and "ObjectId post_id' = Inr i" and "\<forall>d\<in>set ps. doc_id d \<noteq> i"
  shows "like_post post_id' s =
           (Inl (HTTPException 400 (str_exn (HTTPException 404 ''Post not found''))),
            s\<lparr>clock := (\<lambda>n. clock s (Suc n))\<rparr>)"
proof -
  have "find (\<lambda>d. doc_id d = i) ps = None"
    using assms(4) by (simp add: find_None_iff)
  then show ?thesis
    using assms(1-3)
    by (simp add: like_post_def try_except_def bind_def subscript_db_def lift_def now_def
        update_one_def db_get_def ret_def raise_def post_ref_def)
qed

text \<open>
  C5 (the code at the failing input). In the example store no post has the identifier
  \<open>000000000000000000000099\<close>: the answer is the status 400, with the text of the caught
  exception as its detail, not the status 404 with \<open>Post not found\<close>. The store is left
  unchanged.
\<close>

theorem like_of_a_missing_post_answers_400:
  "http_response (fst (like_post ''000000000000000000000099'' seeded)) =
     (400, Inl (str_exn (HTTPException 404 ''Post not found''))) \<and>
   db (snd (like_post ''000000000000000000000099'' seeded)) = db seeded"
proof -
  have d: "db seeded = Some seeded_store"
    by (simp add: seeded_def)
  have c: "post seeded_store = Collection snaps"
    by (simp add: seeded_store_def)
  have o: "ObjectId ''000000000000000000000099'' = Inr ''000000000000000000000099''"
    by (simp add: ObjectId_def is_hex_def is_ascii_space_def lower_def lower_char_def)
  have n: "\<forall>d\<in>set snaps. doc_id d \<noteq> ''000000000000000000000099''"
    by (simp add: snaps_def snap_def)
  show ?thesis
    by (simp add: like_post_missing [OF d c o n] http_response_def)
qed

section \<open>Errors of the handlers\<close>

text \<open>
  C7 (the code at the failing input). With the story collection or the character
  collection unavailable, \<^verbatim>\<open>get_stories\<close> has no handler for the driver's exception: the
  framework answers 500 with its fixed body, which does not carry the exception's text.
  \<^verbatim>\<open>get_feed\<close>, with the post collection unavailable, answers 500 with the text.
\<close>

theorem stories_error_does_not_carry_the_text:
  "fst (get_stories 20 stories_down) = Inl (PyMongoError ''connection refused'') \<and>
   http_response (fst (get_stories 20 stories_down)) = (500, Inl ''Internal Server Error'') \<and>
   http_response (fst (get_stories 20 characters_down)) = (500, Inl ''Internal Server Error'') \<and>
   http_response (fst (get_feed 25 posts_down)) = (500, Inl ''connection refused'')"
  by (simp add: get_stories_def get_feed_def story_items_def feed_items_def try_except_def
      bind_def find_docs_def db_get_def story_ref_def post_ref_def character_ref_def
      stories_down_def characters_down_def posts_down_def unset_def seeded_store_def
      http_response_def raise_def str_exn_def)

text \<open>
  C8 (the code at the failing input). With the handle unset only the seeder answers
  \<open>Database not configured\<close>. The feed answers 500 with the text of Python's
  \<^verbatim>\<open>TypeError\<close>; the stories and the characters let the \<^verbatim>\<open>TypeError\<close> escape, and the
  framework answers 500 with its fixed body; the like handler answers 400.
\<close>

theorem unset_handle_answers:
  "http_response (fst (api_bootstrap unset)) = (500, Inl ''Database not configured'') \<and>
   http_response (fst (get_feed 25 unset)) = (500, Inl (str_exn not_subscriptable)) \<and>
   http_response (fst (get_stories 20 unset)) = (500, Inl ''Internal Server Error'') \<and>
   http_response (fst (get_characters 50 unset)) = (500, Inl ''Internal Server Error'') \<and>
   http_response (fst (like_post ''00000000000000000000000a'' unset)) =
     (400, Inl (str_exn not_subscriptable))"
  by (simp add: api_bootstrap_def ensure_bootstrap_def get_feed_def get_stories_def
      get_characters_def like_post_def feed_items_def story_items_def try_except_def
      bind_def find_docs_def db_get_def subscript_db_def unset_def http_response_def
      raise_def not_subscriptable_def)

section \<open>Validation\<close>

lemma decides_validated: "(errors = []) = ok \<Longrightarrow> decides (validated errors r) ok"
  by (auto simp: decides_def validated_def accepted_def rejected_def)

lemma required_Nil: "required field v = [] \<longleftrightarrow> present v"
  by (simp add: required_def present_def split: option.splits)

lemma literal_Nil: "literal field allowed v = [] \<longleftrightarrow> among allowed v"
  by (simp add: literal_def among_def split: option.splits)

lemma ge_Nil: "ge field bound v = [] \<longleftrightarrow> at_least bound v"
  by (simp add: ge_def at_least_def split: option.splits)

text \<open>
  C9 (as stated, refuted). A reel with a negative \<open>like_count\<close> and a negative
  \<open>comment_count\<close> is constructed: \<^verbatim>\<open>Reel\<close> declares no minimum for them. The same
  \<open>like_count\<close> on a post is a \<^verbatim>\<open>ValidationError\<close>.
\<close>

theorem reel_accepts_negative_counts:
  "new_Reel (Some ''character'') (Some ''000000000000000000000001'') (Some ''https://v/1.mp4'')
     None (Some (- 1)) (Some (- 5)) =
   Inr \<lparr>Reel.author_type = ''character'', Reel.author_id = ''000000000000000000000001'',
        Reel.media_url = ''https://v/1.mp4'', Reel.caption = None, Reel.like_count = - 1,
        Reel.comment_count = - 5\<rparr> \<and>
   new_Post (Some ''character'') (Some ''000000000000000000000001'') (Some ''image'')
     (Some ''https://v/1.jpg'') None None (Some (- 1)) None =
   Inl (ValidationError [''like_count''])"
  by (simp add: new_Reel_def new_Post_def validated_def required_def literal_def ge_def
      default_def)

text \<open>
  C9 (amended). For every entity type, the construction fails with a \<^verbatim>\<open>ValidationError\<close>
  when a required field is missing, when a literal is outside its set, or when a number
  is below its declared minimum of 0, which \<open>followers\<close> and \<open>following\<close> of a character
  and \<open>like_count\<close> and \<open>comment_count\<close> of a post declare; it succeeds in every other
  case. \<open>like_count\<close> and \<open>comment_count\<close> of a reel declare no minimum: any integer is
  accepted.
\<close>

theorem construction_is_decided_by_the_declared_constraints:
  "decides (new_User username' name' bio' avatar_url') (present username') \<and>
   decides (new_Character username' cname bio' avatar_url' interests' followers' following')
     (present username' \<and> present cname \<and> at_least 0 followers' \<and> at_least 0 following') \<and>
   decides (new_Post author_type' author_id' type' media_url' caption' hashtags' like_count'
              comment_count')
     (among [''character'', ''user''] author_type' \<and> present author_id' \<and>
      among [''image'', ''video''] type' \<and> present media_url' \<and>
      at_least 0 like_count' \<and> at_least 0 comment_count') \<and>
   decides (new_Story author_type' author_id' media_url' text_overlay' expires_at')
     (among [''character'', ''user''] author_type' \<and> present author_id' \<and>
      present media_url') \<and>
   decides (new_Reel author_type' author_id' media_url' caption' like_count' comment_count')
     (among [''character'', ''user''] author_type' \<and> present author_id' \<and>
      present media_url') \<and>
   decides (new_Comment post_id' author_type' author_id' text'')
     (present post_id' \<and> among [''character'', ''user''] author_type' \<and>
      present author_id' \<and> present text'') \<and>
   decides (new_Conversation participant_ids') (present participant_ids') \<and>
   decides (new_Message conversation_id' author_type' author_id' mtext media')
     (present conversation_id' \<and> among [''character'', ''user''] author_type' \<and>
      present author_id') \<and>
   decides (new_Notification user_id' ntype actor_id' actor_type' npost message')
     (present user_id' \<and> present ntype \<and> among [''like'', ''comment'', ''follow''] ntype \<and>
      present actor_id' \<and> among [''character'', ''user''] actor_type')"
proof (intro conjI)
  show "decides (new_User username' name' bio' avatar_url') (present username')"
    unfolding new_User_def
    by (rule decides_validated) (simp add: required_Nil literal_Nil ge_Nil)
  show "decides
     (new_Character username' cname bio' avatar_url' interests' followers' following')
     (present username' \<and> present cname \<and> at_least 0 followers' \<and> at_least 0 following')"
    unfolding new_Character_def
    by (rule decides_validated) (simp add: required_Nil literal_Nil ge_Nil)
  show "decides (new_Post author_type' author_id' type' media_url' caption' hashtags'
              like_count' comment_count')
     (among [''character'', ''user''] author_type' \<and> present author_id' \<and>
      among [''image'', ''video''] type' \<and> present media_url' \<and>
      at_least 0 like_count' \<and> at_least 0 comment_count')"
    unfolding new_Post_def
    by (rule decides_validated) (simp add: required_Nil literal_Nil ge_Nil)
  show "decides (new_Story author_type' author_id' media_url' text_overlay' expires_at')
     (among [''character'', ''user''] author_type' \<and> present author_id' \<and>
      present media_url')"
    unfolding new_Story_def
    by (rule decides_validated) (simp add: required_Nil literal_Nil ge_Nil)
  show "decides
     (new_Reel author_type' author_id' media_url' caption' like_count' comment_count')
     (among [''character'', ''user''] author_type' \<and> present author_id' \<and>
      present media_url')"
    unfolding new_Reel_def
    by (rule decides_validated) (simp add: required_Nil literal_Nil ge_Nil)
  show "decides (new_Comment post_id' author_type' author_id' text'')
     (present post_id' \<and> among [''character'', ''user''] author_type' \<and>
      present author_id' \<and> present text'')"
    unfolding new_Comment_def
    by (rule decides_validated) (simp add: required_Nil literal_Nil ge_Nil)
  show "decides (new_Conversation participant_ids') (present participant_ids')"
    unfolding new_Conversation_def
    by (rule decides_validated) (simp add: required_Nil literal_Nil ge_Nil)
  show "decides (new_Message conversation_id' author_type' author_id' mtext media')
     (present conversation_id' \<and> among [''character'', ''user''] author_type' \<and>
      present author_id')"
    unfolding new_Message_def
    by (rule decides_validated) (simp add: required_Nil literal_Nil ge_Nil)
  show "decides (new_Notification user_id' ntype actor_id' actor_type' npost message')
     (present user_id' \<and> present ntype \<and> among [''like'', ''comment'', ''follow''] ntype \<and>
      present actor_id' \<and> among [''character'', ''user''] actor_type')"
    unfolding new_Notification_def
    by (rule decides_validated) (simp add: required_Nil literal_Nil ge_Nil)
qed

end
